theory Spec2Isabelle
  imports Complex_Main
begin

section \<open>Values of the host language\<close>

text \<open>
  The handlers read untyped JSON bodies and query strings, so the tests they make
  (\<^verbatim>\<open>!title\<close>, \<^verbatim>\<open>typeof title !== 'string'\<close>, \<^verbatim>\<open>dueDate !== undefined\<close>) are
  tests on dynamically typed values. \<open>jsval\<close> is the value a parsed JSON body or one of
  its properties can be, with \<open>JUndefined\<close> for a property that is absent. Of a number
  the handlers observe only its type tag and whether it is zero, so it is kept as an
  integer. Strings are lists of characters read as the code points U+0000 to U+00FF.
\<close>

datatype jsval =
    JUndefined
  | JNull
  | JBool bool
  | JNum int
  | JStr string
  | JArr "jsval list"
  | JObj "(string \<times> jsval) list"

text \<open>ToBoolean: what \<^verbatim>\<open>if (v)\<close>, \<^verbatim>\<open>!v\<close>, \<^verbatim>\<open>v && e\<close> and \<^verbatim>\<open>v || e\<close> test.\<close>

fun truthy :: "jsval \<Rightarrow> bool" where
  "truthy JUndefined = False"
| "truthy JNull = False"
| "truthy (JBool b) = b"
| "truthy (JNum n) = (n \<noteq> 0)"
| "truthy (JStr s) = (s \<noteq> [])"
| "truthy (JArr xs) = True"
| "truthy (JObj kvs) = True"

definition falsy :: "jsval \<Rightarrow> bool" where
  "falsy v = (\<not> truthy v)"

definition strict_ne :: "string \<Rightarrow> string \<Rightarrow> bool" where
  "strict_ne a b = (a \<noteq> b)"

fun typeof :: "jsval \<Rightarrow> string" where
  "typeof JUndefined = ''undefined''"
| "typeof JNull = ''object''"
| "typeof (JBool b) = ''boolean''"
| "typeof (JNum n) = ''number''"
| "typeof (JStr s) = ''string''"
| "typeof (JArr xs) = ''object''"
| "typeof (JObj kvs) = ''object''"

text \<open>
  The characters of a string value. It is applied only where the code has already
  established \<^verbatim>\<open>typeof v === 'string'\<close> or membership of an enumeration.
\<close>

fun str :: "jsval \<Rightarrow> string" where
  "str (JStr s) = s"
| "str v = []"

text \<open>
  \<^verbatim>\<open>const { title, status, priority, dueDate } = req.body\<close>: destructuring
  \<^verbatim>\<open>undefined\<close> or \<^verbatim>\<open>null\<close> throws a TypeError (\<open>None\<close>); any other value
  yields the named own property, or \<^verbatim>\<open>undefined\<close> when it has none.
\<close>

fun get_prop :: "jsval \<Rightarrow> string \<Rightarrow> jsval option" where
  "get_prop JUndefined k = None"
| "get_prop JNull k = None"
| "get_prop (JObj kvs) k = Some (case map_of kvs k of None \<Rightarrow> JUndefined | Some v \<Rightarrow> v)"
| "get_prop v k = Some JUndefined"

record fields =
  f_title :: jsval
  f_status :: jsval
  f_priority :: jsval
  f_dueDate :: jsval

definition destructure :: "jsval \<Rightarrow> fields option" where
  "destructure body =
     (case (get_prop body ''title'', get_prop body ''status'', get_prop body ''priority'',
            get_prop body ''dueDate'') of
        (Some t, Some s, Some p, Some d) \<Rightarrow>
          Some \<lparr>f_title = t, f_status = s, f_priority = p, f_dueDate = d\<rparr>
      | _ \<Rightarrow> None)"

text \<open>A default in a destructuring pattern replaces \<^verbatim>\<open>undefined\<close> only.\<close>

definition default_to :: "jsval \<Rightarrow> jsval \<Rightarrow> jsval" where
  "default_to d v = (if v = JUndefined then d else v)"

subsection \<open>Strings\<close>

text \<open>
  White space and line terminators of ECMAScript within U+0000..U+00FF: tab, line feed,
  vertical tab, form feed, carriage return, space and no-break space.
\<close>

definition white_space :: "char \<Rightarrow> bool" where
  "white_space c = (of_char c \<in> set [9, 10, 11, 12, 13, 32, 160 :: nat])"

definition trim :: "string \<Rightarrow> string" where
  "trim s = rev (dropWhile white_space (rev (dropWhile white_space s)))"

fun join :: "string \<Rightarrow> string list \<Rightarrow> string" where
  "join sep [] = []"
| "join sep [x] = x"
| "join sep (x # y # ys) = x @ sep @ join sep (y # ys)"

section \<open>utils/constants.js\<close>

text \<open>
  Each enumeration object holds its members and, under the key \<^verbatim>\<open>_ALL\<close>, an array of
  them. \<^verbatim>\<open>Object.values\<close> returns the values of all own keys in insertion order, so a
  value is either a string or that array.
\<close>

datatype enum_value = EStr string | EArr "string list"

definition STATUS_TODO :: string where "STATUS_TODO = ''TODO''"
definition STATUS_IN_PROGRESS :: string where "STATUS_IN_PROGRESS = ''IN_PROGRESS''"
definition STATUS_DONE :: string where "STATUS_DONE = ''DONE''"

definition STATUS :: "(string \<times> enum_value) list" where
  "STATUS =
     [(''TODO'', EStr STATUS_TODO),
      (''IN_PROGRESS'', EStr STATUS_IN_PROGRESS),
      (''DONE'', EStr STATUS_DONE),
      (''_ALL'', EArr [''TODO'', ''IN_PROGRESS'', ''DONE''])]"

definition PRIORITY_LOW :: string where "PRIORITY_LOW = ''low''"
definition PRIORITY_MEDIUM :: string where "PRIORITY_MEDIUM = ''medium''"
definition PRIORITY_HIGH :: string where "PRIORITY_HIGH = ''high''"

definition PRIORITY :: "(string \<times> enum_value) list" where
  "PRIORITY =
     [(''LOW'', EStr PRIORITY_LOW),
      (''MEDIUM'', EStr PRIORITY_MEDIUM),
      (''HIGH'', EStr PRIORITY_HIGH),
      (''_ALL'', EArr [''low'', ''medium'', ''high''])]"

definition DATE_FILTERS_TODAY :: string where "DATE_FILTERS_TODAY = ''today''"
definition DATE_FILTERS_WEEK :: string where "DATE_FILTERS_WEEK = ''week''"
definition DATE_FILTERS_MONTH :: string where "DATE_FILTERS_MONTH = ''month''"
definition DATE_FILTERS_OVERDUE :: string where "DATE_FILTERS_OVERDUE = ''overdue''"

definition DATE_FILTERS :: "(string \<times> enum_value) list" where
  "DATE_FILTERS =
     [(''TODAY'', EStr DATE_FILTERS_TODAY),
      (''WEEK'', EStr DATE_FILTERS_WEEK),
      (''MONTH'', EStr DATE_FILTERS_MONTH),
      (''OVERDUE'', EStr DATE_FILTERS_OVERDUE),
      (''_ALL'', EArr [''today'', ''week'', ''month'', ''overdue''])]"

definition Object_values :: "(string \<times> enum_value) list \<Rightarrow> enum_value list" where
  "Object_values obj = map snd obj"

text \<open>
  \<^verbatim>\<open>Array.prototype.includes\<close> compares with SameValueZero: a string equals a string
  with the same characters; the \<^verbatim>\<open>_ALL\<close> array is an object of the module and is
  identical to no value that arrives in a request.
\<close>

fun same_value_zero :: "enum_value \<Rightarrow> jsval \<Rightarrow> bool" where
  "same_value_zero (EStr s) (JStr t) = (s = t)"
| "same_value_zero e v = False"

definition array_includes :: "enum_value list \<Rightarrow> jsval \<Rightarrow> bool" where
  "array_includes xs v = list_ex (\<lambda>e. same_value_zero e v) xs"

text \<open>
  \<^verbatim>\<open>Array.prototype.join\<close> converts each element with ToString; an array element
  becomes its own elements joined by a comma.
\<close>

fun to_string :: "enum_value \<Rightarrow> string" where
  "to_string (EStr s) = s"
| "to_string (EArr xs) = join '','' xs"

definition join_values :: "string \<Rightarrow> enum_value list \<Rightarrow> string" where
  "join_values sep xs = join sep (map to_string xs)"

text \<open>The validation helpers of the module, which read the \<^verbatim>\<open>_ALL\<close> arrays.\<close>

definition ALL_of :: "(string \<times> enum_value) list \<Rightarrow> string list" where
  "ALL_of obj = (case map_of obj ''_ALL'' of Some (EArr xs) \<Rightarrow> xs | _ \<Rightarrow> [])"

definition isValidStatus :: "jsval \<Rightarrow> bool" where
  "isValidStatus v = array_includes (map EStr (ALL_of STATUS)) v"

definition isValidPriority :: "jsval \<Rightarrow> bool" where
  "isValidPriority v = array_includes (map EStr (ALL_of PRIORITY)) v"

definition isValidDateFilter :: "jsval \<Rightarrow> bool" where
  "isValidDateFilter v = array_includes (map EStr (ALL_of DATE_FILTERS)) v"

section \<open>The environment of a request\<close>

text \<open>
  A \<^verbatim>\<open>Date\<close> object holds a time value in milliseconds since the epoch, or is an
  Invalid Date. What \<^verbatim>\<open>new Date(v)\<close> makes of a value is the engine's business and is a
  parameter of the model (\<open>newDate\<close>), as are the process's mode
  (\<^verbatim>\<open>NODE_ENV === 'development'\<close>), the host's offset from UTC in milliseconds (\<open>tz\<close>,
  taken as constant over the days a request looks at) and the place the store gives to
  tasks without a due date when it sorts by due date (\<open>nulls_first\<close>).
\<close>

datatype jsdate = Instant int | InvalidDate

record env =
  development :: bool
  tz :: int
  nulls_first :: bool
  newDate :: "jsval \<Rightarrow> jsdate"

fun getTime_isNaN :: "jsdate \<Rightarrow> bool" where
  "getTime_isNaN InvalidDate = True"
| "getTime_isNaN (Instant t) = False"

section \<open>prisma/schema.prisma: the Task model and the store\<close>

record task =
  t_id :: string
  t_title :: string
  t_status :: string
  t_priority :: string
  t_dueDate :: "int option"
  t_createdAt :: int
  t_updatedAt :: int

type_synonym store = "task list"

text \<open>
  The two enumerations of the schema. \<^verbatim>\<open>@map\<close> names the value a member has in the
  database column; the client generated from the schema takes and returns the names of
  the members, and refuses any other value in an argument.
\<close>

definition TaskStatus :: "string list" where
  "TaskStatus = [''TODO'', ''IN_PROGRESS'', ''DONE'']"

definition Priority :: "string list" where
  "Priority = [''LOW'', ''MEDIUM'', ''HIGH'']"

definition accepts :: "string list \<Rightarrow> string option \<Rightarrow> bool" where
  "accepts names v = (case v of None \<Rightarrow> True | Some s \<Rightarrow> s \<in> set names)"

text \<open>
  An error thrown by the client of the store. The handlers look at \<^verbatim>\<open>error.code\<close>
  and, in development mode, pass \<^verbatim>\<open>error.message\<close> on. An error thrown by the
  language itself (a TypeError) has the same shape with no code.
\<close>

record thrown =
  code :: "string option"
  message :: string

definition record_not_found :: thrown where
  "record_not_found = \<lparr>code = Some ''P2025'', message = ''An operation failed because it depends on one or more records that were required but not found.''\<rparr>"

definition unique_constraint_failed :: thrown where
  "unique_constraint_failed =
     \<lparr>code = Some ''P2002'', message = ''Unique constraint failed on the fields: (id)''\<rparr>"

definition invalid_date_argument :: thrown where
  "invalid_date_argument = \<lparr>code = None, message = ''Provided Date object is invalid.''\<rparr>"

definition invalid_enum_argument :: thrown where
  "invalid_enum_argument =
     \<lparr>code = None, message = ''Invalid value for argument. Expected a member of the enum.''\<rparr>"

definition TypeError :: "string \<Rightarrow> thrown" where
  "TypeError m = \<lparr>code = None, message = m\<rparr>"

text \<open>
  The operations of the store the controllers call. The store is a table of tasks keyed
  by \<open>t_id\<close>. Every operation takes \<open>fault\<close>, an error the store may throw for reasons
  of its own (connection lost, disk full): when it is given, the operation throws it and
  leaves the table as it was. Otherwise the client first checks its arguments, and
  throws when a date is invalid or when a status or a priority is not a member of its
  enumeration; only then is the table read or written. \<open>new_id\<close> is the uuid the store
  generates and \<open>now\<close> its clock.
\<close>

record create_data =
  c_title :: string
  c_status :: string
  c_priority :: string
  c_dueDate :: "jsdate option"

record update_data =
  u_title :: "string option"
  u_status :: "string option"
  u_priority :: "string option"
  u_dueDate :: "jsdate option option"

fun date_column :: "jsdate option \<Rightarrow> int option" where
  "date_column None = None"
| "date_column (Some (Instant t)) = Some t"
| "date_column (Some InvalidDate) = None"

definition prisma_create ::
  "thrown option \<Rightarrow> string \<Rightarrow> int \<Rightarrow> create_data \<Rightarrow> store \<Rightarrow> thrown + (task \<times> store)" where
  "prisma_create fault new_id now d db =
     (case fault of
        Some e \<Rightarrow> Inl e
      | None \<Rightarrow>
          if c_dueDate d = Some InvalidDate then Inl invalid_date_argument
          else if accepts TaskStatus (Some (c_status d)) \<and>
                  accepts Priority (Some (c_priority d)) then
            if new_id \<in> set (map t_id db) then Inl unique_constraint_failed
            else
              let t = \<lparr>t_id = new_id, t_title = c_title d, t_status = c_status d,
                       t_priority = c_priority d, t_dueDate = date_column (c_dueDate d),
                       t_createdAt = now, t_updatedAt = now\<rparr>
              in Inr (t, db @ [t])
          else Inl invalid_enum_argument)"

definition apply_update :: "int \<Rightarrow> update_data \<Rightarrow> task \<Rightarrow> task" where
  "apply_update now d t =
     t\<lparr>t_title := (case u_title d of None \<Rightarrow> t_title t | Some v \<Rightarrow> v),
       t_status := (case u_status d of None \<Rightarrow> t_status t | Some v \<Rightarrow> v),
       t_priority := (case u_priority d of None \<Rightarrow> t_priority t | Some v \<Rightarrow> v),
       t_dueDate := (case u_dueDate d of None \<Rightarrow> t_dueDate t | Some v \<Rightarrow> date_column v),
       t_updatedAt := now\<rparr>"

definition prisma_update ::
  "thrown option \<Rightarrow> int \<Rightarrow> string \<Rightarrow> update_data \<Rightarrow> store \<Rightarrow> thrown + (task \<times> store)" where
  "prisma_update fault now i d db =
     (case fault of
        Some e \<Rightarrow> Inl e
      | None \<Rightarrow>
          if u_dueDate d = Some (Some InvalidDate) then Inl invalid_date_argument
          else if accepts TaskStatus (u_status d) \<and> accepts Priority (u_priority d) then
            (case find (\<lambda>t. t_id t = i) db of
               None \<Rightarrow> Inl record_not_found
             | Some t \<Rightarrow>
                 let t' = apply_update now d t
                 in Inr (t', map (\<lambda>x. if t_id x = i then t' else x) db))
          else Inl invalid_enum_argument)"

definition prisma_delete :: "thrown option \<Rightarrow> string \<Rightarrow> store \<Rightarrow> thrown + (task \<times> store)" where
  "prisma_delete fault i db =
     (case fault of
        Some e \<Rightarrow> Inl e
      | None \<Rightarrow>
          (case find (\<lambda>t. t_id t = i) db of
             None \<Rightarrow> Inl record_not_found
           | Some t \<Rightarrow> Inr (t, filter (\<lambda>x. t_id x \<noteq> i) db)))"

section \<open>Responses\<close>

datatype valid_options =
    Options "enum_value list"
  | OptionsByField "enum_value list" "enum_value list"

record error_body =
  error :: string
  field :: "string option"
  validOptions :: "valid_options option"
  receivedValue :: "jsval option"
  details :: "string option"

record pagination =
  p_total :: int
  p_page :: int
  p_limit :: int
  p_totalPages :: int

datatype body =
    Failure error_body
  | TaskData task
  | TaskList "task list" pagination

text \<open>
  \<open>Json n b\<close> is \<^verbatim>\<open>res.status(n).json(b)\<close> (\<open>n = 200\<close> when the handler sets no
  status), \<open>End n\<close> is \<^verbatim>\<open>res.status(n).end()\<close>, and \<open>Rejected e\<close> is a handler whose
  promise rejects with \<open>e\<close> outside any \<^verbatim>\<open>try\<close> of its own.
\<close>

datatype response = Json nat body | End nat | Rejected thrown

text \<open>
  The status code the client sees. A rejected handler is answered by the error
  middleware of \<^verbatim>\<open>server.js\<close>, with \<^verbatim>\<open>err.status || 500\<close>.
\<close>

fun status_code :: "response \<Rightarrow> nat" where
  "status_code (Json n b) = n"
| "status_code (End n) = n"
| "status_code (Rejected e) = 500"

definition failure :: "string \<Rightarrow> error_body" where
  "failure msg =
     \<lparr>error = msg, field = None, validOptions = None, receivedValue = None, details = None\<rparr>"

text \<open>\<^verbatim>\<open>process.env.NODE_ENV === 'development' ? error.message : undefined\<close>\<close>

definition dev_details :: "env \<Rightarrow> thrown \<Rightarrow> string option" where
  "dev_details env e = (if development env then Some (message e) else None)"

definition cannot_destructure :: thrown where
  "cannot_destructure =
     TypeError ''Cannot destructure property 'title' of 'req.body' as it is undefined.''"

definition trim_not_a_function :: thrown where
  "trim_not_a_function = TypeError ''title.trim is not a function''"

section \<open>middlewares/validateTask.js\<close>

text \<open>
  The middleware either answers the request itself or calls \<^verbatim>\<open>next()\<close> after storing
  the normalised payload in \<^verbatim>\<open>req.validatedTaskData\<close>. Its \<^verbatim>\<open>try\<close> block covers the
  destructuring of the body, the only statement in it that can throw. (The repository
  holds a second copy of the middleware that differs in the wording of the enumeration
  messages and omits \<^verbatim>\<open>receivedValue\<close>; the copy with the fuller answer is modelled.)
\<close>

record validated =
  v_title :: string
  v_status :: "string option"
  v_priority :: "string option"
  v_dueDate :: "jsdate option option"

text \<open>\<^verbatim>\<open>!title || typeof title !== 'string' || title.trim().length === 0\<close>\<close>

definition invalid_title :: "jsval \<Rightarrow> bool" where
  "invalid_title title =
     (falsy title \<or> strict_ne (typeof title) ''string'' \<or> length (trim (str title)) = 0)"

definition title_required :: response where
  "title_required =
     Json 400 (Failure ((failure ''Title is required and must be a non-empty string'')
       \<lparr>field := Some ''title''\<rparr>))"

definition validateTask :: "env \<Rightarrow> jsval \<Rightarrow> response + validated" where
  "validateTask env body =
     (case destructure body of
        None \<Rightarrow>
          Inl (Json 500 (Failure ((failure ''Validation failed'')
                 \<lparr>details := dev_details env cannot_destructure\<rparr>)))
      | Some f \<Rightarrow>
          let title = f_title f; status = f_status f; priority = f_priority f;
              dueDate = f_dueDate f
          in
          if invalid_title title then Inl title_required
          else if truthy status \<and> strict_ne (typeof status) ''string'' then
            Inl (Json 400 (Failure ((failure ''Status must be a string'')
                   \<lparr>field := Some ''status''\<rparr>)))
          else if truthy status \<and> \<not> array_includes (Object_values STATUS) status then
            Inl (Json 400 (Failure ((failure
                   (''Invalid status. Valid options are case-sensitive: '' @
                    join_values '', '' (Object_values STATUS)))
                   \<lparr>field := Some ''status'',
                    validOptions := Some (Options (Object_values STATUS)),
                    receivedValue := Some status\<rparr>)))
          else if truthy priority \<and> strict_ne (typeof priority) ''string'' then
            Inl (Json 400 (Failure ((failure ''Priority must be a string'')
                   \<lparr>field := Some ''priority''\<rparr>)))
          else if truthy priority \<and> \<not> array_includes (Object_values PRIORITY) priority then
            Inl (Json 400 (Failure ((failure
                   (''Invalid priority. Valid options are case-sensitive: '' @
                    join_values '', '' (Object_values PRIORITY)))
                   \<lparr>field := Some ''priority'',
                    validOptions := Some (Options (Object_values PRIORITY)),
                    receivedValue := Some priority\<rparr>)))
          else if dueDate \<noteq> JUndefined \<and> dueDate \<noteq> JNull \<and>
                  (strict_ne (typeof dueDate) ''string'' \<or>
                   getTime_isNaN (newDate env dueDate)) then
            Inl (Json 400 (Failure ((failure
                   ''Invalid due date format. Use ISO 8601 format (YYYY-MM-DDTHH:MM:SSZ)'')
                   \<lparr>field := Some ''dueDate''\<rparr>)))
          else
            Inr \<lparr>v_title = trim (str title),
                 v_status = (if truthy status then Some (str status) else None),
                 v_priority = (if truthy priority then Some (str priority) else None),
                 v_dueDate =
                   (if dueDate \<noteq> JUndefined then
                      Some (if truthy dueDate then Some (newDate env dueDate) else None)
                    else None)\<rparr>)"

section \<open>controllers/tasks.js: the writing handlers\<close>

text \<open>
  Each handler takes the request, the store and what the environment supplies, and
  returns its answer with the store after it. The destructuring of the body stands
  before the \<^verbatim>\<open>try\<close> block, so a body that cannot be destructured rejects the
  handler's promise.
\<close>

definition createTask ::
  "env \<Rightarrow> thrown option \<Rightarrow> string \<Rightarrow> int \<Rightarrow> jsval \<Rightarrow> store \<Rightarrow> response \<times> store" where
  "createTask env fault new_id now body db =
     (case destructure body of
        None \<Rightarrow> (Rejected cannot_destructure, db)
      | Some f \<Rightarrow>
          let title = f_title f;
              status = default_to (JStr STATUS_TODO) (f_status f);
              priority = default_to (JStr PRIORITY_MEDIUM) (f_priority f);
              dueDate = f_dueDate f
          in
          if invalid_title title then
            (Json 400 (Failure ((failure ''Valid title is required'')
               \<lparr>validOptions :=
                  Some (OptionsByField (Object_values STATUS) (Object_values PRIORITY))\<rparr>)), db)
          else if truthy status \<and> \<not> array_includes (Object_values STATUS) status then
            (Json 400 (Failure ((failure
               (''Invalid status. Valid options: '' @ join_values '', '' (Object_values STATUS)))
               \<lparr>validOptions := Some (Options (Object_values STATUS))\<rparr>)), db)
          else if truthy priority \<and> \<not> array_includes (Object_values PRIORITY) priority then
            (Json 400 (Failure ((failure
               (''Invalid priority. Valid options: '' @
                join_values '', '' (Object_values PRIORITY)))
               \<lparr>validOptions := Some (Options (Object_values PRIORITY))\<rparr>)), db)
          else
            (case prisma_create fault new_id now
                    \<lparr>c_title = trim (str title),
                     c_status = (if truthy status then str status else STATUS_TODO),
                     c_priority = (if truthy priority then str priority else PRIORITY_MEDIUM),
                     c_dueDate = (if truthy dueDate then Some (newDate env dueDate) else None)\<rparr>
                    db of
               Inr (t, db') \<Rightarrow> (Json 201 (TaskData t), db')
             | Inl e \<Rightarrow>
                 (Json 400 (Failure ((failure ''Failed to create task'')
                    \<lparr>details := dev_details env e\<rparr>)), db)))"

text \<open>
  The handler's \<^verbatim>\<open>catch\<close> of the update: \<^verbatim>\<open>P2025\<close> is the store's code for a record
  that does not exist.
\<close>

definition task_not_found :: response where
  "task_not_found = Json 404 (Failure (failure ''Task not found''))"

definition update_failed :: "env \<Rightarrow> thrown \<Rightarrow> response" where
  "update_failed env e =
     (if code e = Some ''P2025'' then task_not_found
      else Json 400 (Failure ((failure ''Failed to update task'')
             \<lparr>details := dev_details env e\<rparr>)))"

definition updateTask ::
  "env \<Rightarrow> thrown option \<Rightarrow> int \<Rightarrow> string \<Rightarrow> jsval \<Rightarrow> store \<Rightarrow> response \<times> store" where
  "updateTask env fault now i body db =
     (case destructure body of
        None \<Rightarrow> (Rejected cannot_destructure, db)
      | Some f \<Rightarrow>
          let title = f_title f; status = f_status f; priority = f_priority f;
              dueDate = f_dueDate f
          in
          if i = [] then (Json 400 (Failure (failure ''Invalid task ID'')), db)
          else if truthy status \<and> \<not> array_includes (Object_values STATUS) status then
            (Json 400 (Failure ((failure
               (''Invalid status. Valid options: '' @ join_values '', '' (Object_values STATUS)))
               \<lparr>validOptions := Some (Options (Object_values STATUS))\<rparr>)), db)
          else if truthy priority \<and> \<not> array_includes (Object_values PRIORITY) priority then
            (Json 400 (Failure ((failure
               (''Invalid priority. Valid options: '' @
                join_values '', '' (Object_values PRIORITY)))
               \<lparr>validOptions := Some (Options (Object_values PRIORITY))\<rparr>)), db)
          else if truthy title \<and> strict_ne (typeof title) ''string'' then
            (update_failed env trim_not_a_function, db)
          else
            (case prisma_update fault now i
                    \<lparr>u_title = (if truthy title then Some (trim (str title)) else None),
                     u_status = (if truthy status then Some (str status) else None),
                     u_priority = (if truthy priority then Some (str priority) else None),
                     u_dueDate =
                       (if dueDate \<noteq> JUndefined then
                          Some (if truthy dueDate then Some (newDate env dueDate) else None)
                        else None)\<rparr>
                    db of
               Inr (t, db') \<Rightarrow> (Json 200 (TaskData t), db')
             | Inl e \<Rightarrow> (update_failed env e, db)))"

definition deleteTask ::
  "env \<Rightarrow> thrown option \<Rightarrow> string \<Rightarrow> store \<Rightarrow> response \<times> store" where
  "deleteTask env fault i db =
     (if i = [] then (Json 400 (Failure (failure ''Invalid task ID'')), db)
      else
        (case prisma_delete fault i db of
           Inr (t, db') \<Rightarrow> (End 204, db')
         | Inl e \<Rightarrow>
             if code e = Some ''P2025'' then (task_not_found, db)
             else
               (Json 500 (Failure ((failure ''Failed to delete task'')
                  \<lparr>details := dev_details env e\<rparr>)), db)))"

section \<open>Dates in the host's time zone\<close>

text \<open>
  The time arithmetic of \<^verbatim>\<open>Date\<close>: \<open>Day\<close> and \<open>WeekDay\<close> are those of the language
  standard (day 0 was a Thursday), \<open>setHours\<close> replaces the time within the local day,
  and \<open>setDate_by d k\<close> is \<^verbatim>\<open>d.setDate(d.getDate() + k)\<close>, which moves \<open>d\<close> by \<open>k\<close>
  local days and keeps its time within the day.
\<close>

definition msPerDay :: int where
  "msPerDay = 86400000"

definition LocalTime :: "env \<Rightarrow> int \<Rightarrow> int" where
  "LocalTime env t = t + tz env"

definition UTC :: "env \<Rightarrow> int \<Rightarrow> int" where
  "UTC env t = t - tz env"

definition Day :: "int \<Rightarrow> int" where
  "Day t = t div msPerDay"

definition WeekDay :: "int \<Rightarrow> int" where
  "WeekDay t = (Day t + 4) mod 7"

definition MakeTime :: "int \<Rightarrow> int \<Rightarrow> int \<Rightarrow> int \<Rightarrow> int" where
  "MakeTime h m s ms = h * 3600000 + m * 60000 + s * 1000 + ms"

definition setHours :: "env \<Rightarrow> int \<Rightarrow> int \<Rightarrow> int \<Rightarrow> int \<Rightarrow> int \<Rightarrow> int" where
  "setHours env t h m s ms = UTC env (Day (LocalTime env t) * msPerDay + MakeTime h m s ms)"

definition getDay :: "env \<Rightarrow> int \<Rightarrow> int" where
  "getDay env t = WeekDay (LocalTime env t)"

definition setDate_by :: "env \<Rightarrow> int \<Rightarrow> int \<Rightarrow> int" where
  "setDate_by env t k = UTC env (LocalTime env t + k * msPerDay)"

section \<open>Query strings\<close>

text \<open>
  A parameter of the query string is absent, a string, or (when it is repeated) an array
  of strings.
\<close>

datatype qval = QStr string | QArr "string list"

record query =
  q_status :: "qval option"
  q_priority :: "qval option"
  q_dateFilter :: "qval option"
  q_page :: "qval option"
  q_limit :: "qval option"

fun qjs :: "qval option \<Rightarrow> jsval" where
  "qjs None = JUndefined"
| "qjs (Some (QStr s)) = JStr s"
| "qjs (Some (QArr xs)) = JArr (map JStr xs)"

fun ToString :: "qval \<Rightarrow> string" where
  "ToString (QStr s) = s"
| "ToString (QArr xs) = join '','' xs"

text \<open>
  \<^verbatim>\<open>parseInt(s)\<close> with no radix: leading white space is skipped, then an optional sign,
  then \<^verbatim>\<open>0x\<close> or \<^verbatim>\<open>0X\<close> selects radix 16 (else 10), then the longest run of digits
  of that radix is read; with no digit the result is \<^verbatim>\<open>NaN\<close> (\<open>None\<close>). The result is
  the integer the digits denote; the engine holds it as a double, which is the same
  number up to \<open>2^53\<close>.
\<close>

definition digit_of :: "char \<Rightarrow> nat" where
  "digit_of c =
     (let n = of_char c :: nat in
      if 48 \<le> n \<and> n \<le> 57 then n - 48
      else if 97 \<le> n \<and> n \<le> 102 then n - 87
      else if 65 \<le> n \<and> n \<le> 70 then n - 55
      else 36)"

definition strip_sign :: "string \<Rightarrow> int \<times> string" where
  "strip_sign s =
     (case s of
        [] \<Rightarrow> (1, s)
      | c # r \<Rightarrow> if c = CHR ''-'' then (- 1, r) else if c = CHR ''+'' then (1, r) else (1, s))"

definition strip_radix :: "string \<Rightarrow> nat \<times> string" where
  "strip_radix s =
     (if take 2 s = ''0x'' \<or> take 2 s = ''0X'' then (16, drop 2 s) else (10, s))"

definition parseInt :: "string \<Rightarrow> int option" where
  "parseInt input =
     (let (sign, s) = strip_sign (dropWhile white_space input);
          (radix, s') = strip_radix s;
          z = takeWhile (\<lambda>c. digit_of c < radix) s'
      in if z = [] then None
         else Some (sign * int (foldl (\<lambda>a c. a * radix + digit_of c) 0 z)))"

text \<open>\<^verbatim>\<open>const { page = 1, limit = 10 } = req.query\<close>, then \<^verbatim>\<open>parseInt\<close> of each.\<close>

definition parse_param :: "int \<Rightarrow> qval option \<Rightarrow> int option" where
  "parse_param d v = (case v of None \<Rightarrow> Some d | Some x \<Rightarrow> parseInt (ToString x))"

section \<open>The store's queries\<close>

text \<open>
  The filter object the list handler builds, and what the store makes of it: every
  condition present must hold (the conditions of one object are joined by AND), an
  absent one asks nothing, and a comparison with a missing due date is never true. A
  query whose status or priority condition is not a member of its enumeration is
  refused by the client.
\<close>

record date_range =
  gte :: "int option"
  lte :: "int option"
  lt :: "int option"

record where_clause =
  w_status :: "string option"
  w_priority :: "string option"
  w_dueDate :: "date_range option"

definition in_range :: "date_range \<Rightarrow> int option \<Rightarrow> bool" where
  "in_range r due =
     (case due of
        None \<Rightarrow> False
      | Some d \<Rightarrow>
          (case gte r of None \<Rightarrow> True | Some a \<Rightarrow> a \<le> d) \<and>
          (case lte r of None \<Rightarrow> True | Some b \<Rightarrow> d \<le> b) \<and>
          (case lt r of None \<Rightarrow> True | Some b \<Rightarrow> d < b))"

definition matches :: "where_clause \<Rightarrow> task \<Rightarrow> bool" where
  "matches w t =
     ((case w_status w of None \<Rightarrow> True | Some s \<Rightarrow> t_status t = s) \<and>
      (case w_priority w of None \<Rightarrow> True | Some p \<Rightarrow> t_priority t = p) \<and>
      (case w_dueDate w of None \<Rightarrow> True | Some r \<Rightarrow> in_range r (t_dueDate t)))"

text \<open>
  \<^verbatim>\<open>orderBy: [{ dueDate: 'asc' }, { createdAt: 'desc' }]\<close>: \<open>precedes env a b\<close> holds
  when \<open>a\<close> must come before \<open>b\<close>. Tasks the order does not tell apart keep the order
  of the table.
\<close>

definition precedes :: "env \<Rightarrow> task \<Rightarrow> task \<Rightarrow> bool" where
  "precedes env a b =
     (case (t_dueDate a, t_dueDate b) of
        (None, None) \<Rightarrow> t_createdAt b < t_createdAt a
      | (None, Some y) \<Rightarrow> nulls_first env
      | (Some x, None) \<Rightarrow> \<not> nulls_first env
      | (Some x, Some y) \<Rightarrow> x < y \<or> (x = y \<and> t_createdAt b < t_createdAt a))"

fun insert_task :: "env \<Rightarrow> task \<Rightarrow> task list \<Rightarrow> task list" where
  "insert_task env x [] = [x]"
| "insert_task env x (y # ys) =
     (if precedes env y x then y # insert_task env x ys else x # y # ys)"

definition order_by :: "env \<Rightarrow> task list \<Rightarrow> task list" where
  "order_by env ts = foldr (insert_task env) ts []"

definition findMany ::
  "env \<Rightarrow> where_clause \<Rightarrow> int \<Rightarrow> int \<Rightarrow> store \<Rightarrow> thrown + task list" where
  "findMany env w skip tk db =
     (if accepts TaskStatus (w_status w) \<and> accepts Priority (w_priority w) then
        Inr (take (nat tk) (drop (nat skip) (order_by env (filter (matches w) db))))
      else Inl invalid_enum_argument)"

definition count :: "where_clause \<Rightarrow> store \<Rightarrow> thrown + int" where
  "count w db =
     (if accepts TaskStatus (w_status w) \<and> accepts Priority (w_priority w) then
        Inr (int (length (filter (matches w) db)))
      else Inl invalid_enum_argument)"

section \<open>controllers/tasks.js: the list handler\<close>

text \<open>
  The \<^verbatim>\<open>switch\<close> on the date filter. \<open>now\<close> is the clock read at the start of the
  handler; the \<^verbatim>\<open>overdue\<close> case reads the clock again (\<open>now'\<close>). A value with no
  \<^verbatim>\<open>case\<close> leaves the filter object without a condition on the due date.
\<close>

definition resolve_dateFilter :: "env \<Rightarrow> int \<Rightarrow> int \<Rightarrow> string \<Rightarrow> date_range option" where
  "resolve_dateFilter env now now' dateFilter =
     (if dateFilter = DATE_FILTERS_TODAY then
        let startOfDay = setHours env now 0 0 0 0;
            endOfDay = setHours env now 23 59 59 999
        in Some \<lparr>gte = Some startOfDay, lte = Some endOfDay, lt = None\<rparr>
      else if dateFilter = DATE_FILTERS_OVERDUE then
        Some \<lparr>gte = None, lte = None, lt = Some now'\<rparr>
      else if dateFilter = DATE_FILTERS_WEEK then
        let startOfWeek = setHours env (setDate_by env now (- getDay env now)) 0 0 0 0;
            endOfWeek = setHours env (setDate_by env startOfWeek 6) 23 59 59 999
        in Some \<lparr>gte = Some startOfWeek, lte = Some endOfWeek, lt = None\<rparr>
      else None)"

text \<open>
  \<^verbatim>\<open>isNaN(pageNum) || isNaN(limitNum) || pageNum < 1 || limitNum < 1\<close>: the two
  numbers when the test lets them through.
\<close>

definition valid_pagination :: "int option \<Rightarrow> int option \<Rightarrow> (int \<times> int) option" where
  "valid_pagination pageNum limitNum =
     (case (pageNum, limitNum) of
        (Some p, Some l) \<Rightarrow> if p < 1 \<or> l < 1 then None else Some (p, l)
      | _ \<Rightarrow> None)"

definition build_where :: "env \<Rightarrow> int \<Rightarrow> int \<Rightarrow> jsval \<Rightarrow> jsval \<Rightarrow> jsval \<Rightarrow> where_clause" where
  "build_where env now now' status priority dateFilter =
     \<lparr>w_status = (if truthy status then Some (str status) else None),
      w_priority = (if truthy priority then Some (str priority) else None),
      w_dueDate =
        (if truthy dateFilter then resolve_dateFilter env now now' (str dateFilter)
         else None)\<rparr>"

definition Math_ceil_div :: "int \<Rightarrow> int \<Rightarrow> int" where
  "Math_ceil_div a b = \<lceil>real_of_int a / real_of_int b\<rceil>"

text \<open>The handler's \<^verbatim>\<open>catch\<close>.\<close>

definition fetch_failed :: "env \<Rightarrow> thrown \<Rightarrow> response" where
  "fetch_failed env e =
     Json 500 (Failure ((failure ''Failed to fetch tasks'') \<lparr>details := dev_details env e\<rparr>))"

definition invalid_date_filter :: response where
  "invalid_date_filter =
     Json 400 (Failure ((failure
       (''Invalid date filter. Valid options: '' @
        join_values '', '' (Object_values DATE_FILTERS)))
       \<lparr>validOptions := Some (Options (Object_values DATE_FILTERS))\<rparr>))"

definition getTasks :: "env \<Rightarrow> thrown option \<Rightarrow> int \<Rightarrow> int \<Rightarrow> query \<Rightarrow> store \<Rightarrow> response" where
  "getTasks env fault now now' q db =
     (let status = qjs (q_status q); priority = qjs (q_priority q);
          dateFilter = qjs (q_dateFilter q);
          pageNum = parse_param 1 (q_page q);
          limitNum = parse_param 10 (q_limit q)
      in
      case valid_pagination pageNum limitNum of
        None \<Rightarrow> Json 400 (Failure (failure ''Invalid pagination parameters''))
      | Some (p, l) \<Rightarrow>
          if truthy status \<and> \<not> array_includes (Object_values STATUS) status then
            Json 400 (Failure ((failure
              (''Invalid status. Valid options: '' @ join_values '', '' (Object_values STATUS)))
              \<lparr>validOptions := Some (Options (Object_values STATUS))\<rparr>))
          else if truthy priority \<and> \<not> array_includes (Object_values PRIORITY) priority then
            Json 400 (Failure ((failure
              (''Invalid priority. Valid options: '' @
               join_values '', '' (Object_values PRIORITY)))
              \<lparr>validOptions := Some (Options (Object_values PRIORITY))\<rparr>))
          else if truthy dateFilter \<and>
                  \<not> array_includes (Object_values DATE_FILTERS) dateFilter then
            invalid_date_filter
          else
            let wh = build_where env now now' status priority dateFilter in
            (case fault of
               Some e \<Rightarrow> fetch_failed env e
             | None \<Rightarrow>
                 (case findMany env wh ((p - 1) * l) l db of
                    Inl e \<Rightarrow> fetch_failed env e
                  | Inr tasks \<Rightarrow>
                      (case count wh db of
                         Inl e \<Rightarrow> fetch_failed env e
                       | Inr n \<Rightarrow>
                           Json 200 (TaskList tasks
                             \<lparr>p_total = n, p_page = p, p_limit = l,
                              p_totalPages = Math_ceil_div n l\<rparr>)))))"

section \<open>routes/tasks.js\<close>

text \<open>
  The routes chain the middleware and the controllers. The rate limiter that stands
  first in every chain is a library's and is left out: the routes describe a request it
  lets through.
\<close>

definition router_get :: "env \<Rightarrow> thrown option \<Rightarrow> int \<Rightarrow> int \<Rightarrow> query \<Rightarrow> store \<Rightarrow> response \<times> store" where
  "router_get env fault now now' q db = (getTasks env fault now now' q db, db)"

definition router_post ::
  "env \<Rightarrow> thrown option \<Rightarrow> string \<Rightarrow> int \<Rightarrow> jsval \<Rightarrow> store \<Rightarrow> response \<times> store" where
  "router_post env fault new_id now body db =
     (case validateTask env body of
        Inl r \<Rightarrow> (r, db)
      | Inr v \<Rightarrow> createTask env fault new_id now body db)"

definition router_patch ::
  "env \<Rightarrow> thrown option \<Rightarrow> int \<Rightarrow> string \<Rightarrow> jsval \<Rightarrow> store \<Rightarrow> response \<times> store" where
  "router_patch env fault now i body db =
     (case validateTask env body of
        Inl r \<Rightarrow> (r, db)
      | Inr v \<Rightarrow> updateTask env fault now i body db)"

definition router_delete ::
  "env \<Rightarrow> thrown option \<Rightarrow> string \<Rightarrow> store \<Rightarrow> response \<times> store" where
  "router_delete env fault i db = deleteTask env fault i db"

text \<open>
  A request with what the environment supplies while it is handled, and the store after
  a sequence of requests.
\<close>

datatype request =
    GET "thrown option" int int query
  | POST "thrown option" string int jsval
  | PATCH "thrown option" int string jsval
  | DELETE "thrown option" string

fun handle :: "env \<Rightarrow> request \<Rightarrow> store \<Rightarrow> response \<times> store" where
  "handle env (GET fault now now' q) db = router_get env fault now now' q db"
| "handle env (POST fault new_id now body) db = router_post env fault new_id now body db"
| "handle env (PATCH fault now i body) db = router_patch env fault now i body db"
| "handle env (DELETE fault i) db = router_delete env fault i db"

fun serve :: "env \<Rightarrow> request list \<Rightarrow> store \<Rightarrow> store" where
  "serve env [] db = db"
| "serve env (r # rs) db = serve env rs (snd (handle env r db))"

section \<open>The notions the properties are stated with\<close>

text \<open>
  A title is blank when it is empty or holds white space only. A query parameter is
  supplied when it is present and not empty (the handler tests it with \<^verbatim>\<open>if (v)\<close>).
  \<open>spec_matches\<close> is the conjunctive filter as the specification words it: a task
  passes when it satisfies every supplied filter, the date filter through the range it
  resolves to, and a filter that is omitted or resolves to no range asks nothing.
\<close>

definition blank :: "string \<Rightarrow> bool" where
  "blank s = list_all white_space s"

fun supplied :: "qval option \<Rightarrow> string option" where
  "supplied (Some (QStr s)) = (if s = [] then None else Some s)"
| "supplied v = None"

definition spec_matches :: "env \<Rightarrow> int \<Rightarrow> int \<Rightarrow> query \<Rightarrow> task \<Rightarrow> bool" where
  "spec_matches env now now' q t =
     ((case supplied (q_status q) of None \<Rightarrow> True | Some s \<Rightarrow> t_status t = s) \<and>
      (case supplied (q_priority q) of None \<Rightarrow> True | Some p \<Rightarrow> t_priority t = p) \<and>
      (case supplied (q_dateFilter q) of
         None \<Rightarrow> True
       | Some f \<Rightarrow>
           (case resolve_dateFilter env now now' f of
              None \<Rightarrow> True
            | Some r \<Rightarrow> in_range r (t_dueDate t))))"

text \<open>The conditions on the due date that the date filters come to.\<close>

definition due_before :: "int \<Rightarrow> task \<Rightarrow> bool" where
  "due_before b t = (case t_dueDate t of None \<Rightarrow> False | Some d \<Rightarrow> d < b)"

definition due_within :: "int \<Rightarrow> int \<Rightarrow> task \<Rightarrow> bool" where
  "due_within a b t = (case t_dueDate t of None \<Rightarrow> False | Some d \<Rightarrow> a \<le> d \<and> d \<le> b)"

text \<open>The filter object of a list request, and the tasks an answer lists.\<close>

definition query_where :: "env \<Rightarrow> int \<Rightarrow> int \<Rightarrow> query \<Rightarrow> where_clause" where
  "query_where env now now' q =
     build_where env now now' (qjs (q_status q)) (qjs (q_priority q)) (qjs (q_dateFilter q))"

fun listed :: "response \<Rightarrow> task list" where
  "listed (Json n (TaskList ts pg)) = ts"
| "listed r = []"

definition no_query :: query where
  "no_query =
     \<lparr>q_status = None, q_priority = None, q_dateFilter = None, q_page = None, q_limit = None\<rparr>"

definition titles_ok :: "store \<Rightarrow> bool" where
  "titles_ok db = list_all (\<lambda>t. \<not> blank (t_title t)) db"

subsection \<open>Sample data for the closed instances\<close>

definition sample_env :: env where
  "sample_env =
     \<lparr>development = False, tz = 3600000, nulls_first = True,
      newDate = (\<lambda>v. if v = JStr ''2024-05-01T12:00:00Z'' then Instant 1714564800000
                      else InvalidDate)\<rparr>"

definition sample_task :: task where
  "sample_task =
     \<lparr>t_id = ''a1'', t_title = ''Write report'', t_status = ''DONE'', t_priority = ''high'',
      t_dueDate = Some 1714564800000, t_createdAt = 1714000000000,
      t_updatedAt = 1714000000000\<rparr>"

definition other_task :: task where
  "other_task =
     \<lparr>t_id = ''b2'', t_title = ''Plan trip'', t_status = ''TODO'', t_priority = ''low'',
      t_dueDate = None, t_createdAt = 1714100000000, t_updatedAt = 1714100000000\<rparr>"

definition store_down :: thrown where
  "store_down = \<lparr>code = Some ''P1001'', message = ''Can't reach database server''\<rparr>"

section \<open>Basic facts\<close>

subsection \<open>Trimming\<close>

lemma dropWhile_all_iff: "(\<forall>x \<in> set (dropWhile P s). P x) \<longleftrightarrow> (\<forall>x \<in> set s. P x)"
proof
  assume a: "\<forall>x \<in> set (dropWhile P s). P x"
  have "dropWhile P s = []"
  proof (rule ccontr)
    assume n: "dropWhile P s \<noteq> []"
    then have "\<not> P (hd (dropWhile P s))" by (rule hd_dropWhile)
    moreover have "hd (dropWhile P s) \<in> set (dropWhile P s)" using n by simp
    ultimately show False using a by blast
  qed
  then show "\<forall>x \<in> set s. P x" by simp
next
  assume "\<forall>x \<in> set s. P x"
  then show "\<forall>x \<in> set (dropWhile P s). P x" by (blast dest: set_dropWhileD)
qed

lemma trim_Nil_iff: "trim s = [] \<longleftrightarrow> blank s"
  by (simp add: trim_def blank_def list_all_iff dropWhile_all_iff)

lemma trim_not_blank:
  assumes ne: "trim s \<noteq> []"
  shows "\<not> blank (trim s)"
proof -
  let ?r = "rev (dropWhile white_space s)"
  from ne have d: "dropWhile white_space ?r \<noteq> []" by (simp add: trim_def)
  then have "\<not> white_space (hd (dropWhile white_space ?r))" by (rule hd_dropWhile)
  moreover have "hd (dropWhile white_space ?r) \<in> set (trim s)"
    using d by (simp add: trim_def)
  ultimately show ?thesis by (auto simp: blank_def list_all_iff)
qed

subsection \<open>The enumerations\<close>

lemma includes_STATUS:
  "array_includes (Object_values STATUS) v \<longleftrightarrow>
     v = JStr ''TODO'' \<or> v = JStr ''IN_PROGRESS'' \<or> v = JStr ''DONE''"
  by (cases v) (auto simp: array_includes_def Object_values_def STATUS_def STATUS_TODO_def
      STATUS_IN_PROGRESS_def STATUS_DONE_def)

lemma includes_PRIORITY:
  "array_includes (Object_values PRIORITY) v \<longleftrightarrow>
     v = JStr ''low'' \<or> v = JStr ''medium'' \<or> v = JStr ''high''"
  by (cases v) (auto simp: array_includes_def Object_values_def PRIORITY_def PRIORITY_LOW_def
      PRIORITY_MEDIUM_def PRIORITY_HIGH_def)

lemma includes_DATE_FILTERS:
  "array_includes (Object_values DATE_FILTERS) v \<longleftrightarrow>
     v = JStr ''today'' \<or> v = JStr ''week'' \<or> v = JStr ''month'' \<or> v = JStr ''overdue''"
  by (cases v) (auto simp: array_includes_def Object_values_def DATE_FILTERS_def
      DATE_FILTERS_TODAY_def DATE_FILTERS_WEEK_def DATE_FILTERS_MONTH_def
      DATE_FILTERS_OVERDUE_def)

text \<open>What the client makes of the values the handlers let through.\<close>

lemma accepts_None: "accepts names None"
  by (simp add: accepts_def)

lemma accepts_status:
  "array_includes (Object_values STATUS) v \<Longrightarrow> accepts TaskStatus (Some (str v))"
  by (auto simp: includes_STATUS accepts_def TaskStatus_def)

lemma refuses_priority:
  "array_includes (Object_values PRIORITY) v \<Longrightarrow> \<not> accepts Priority (Some (str v))"
  by (auto simp: includes_PRIORITY accepts_def Priority_def)

subsection \<open>Ordering and page arithmetic\<close>

lemma set_insert_task: "set (insert_task env x ys) = insert x (set ys)"
  by (induction ys) auto

lemma length_insert_task: "length (insert_task env x ys) = Suc (length ys)"
  by (induction ys) auto

lemma set_order_by: "set (order_by env ts) = set ts"
  by (induction ts) (simp_all add: order_by_def set_insert_task)

lemma length_order_by: "length (order_by env ts) = length ts"
  by (induction ts) (simp_all add: order_by_def length_insert_task)

lemma neg_div_neg:
  fixes n l :: int
  assumes l: "0 < l"
  shows "- (- n div l) = (n + l - 1) div l"
proof -
  define q where "q = (n + l - 1) div l"
  define r where "r = (n + l - 1) mod l"
  have e: "n + l - 1 = l * q + r"
    by (simp add: q_def r_def)
  have r: "0 \<le> r" "r < l"
    using l by (simp_all add: r_def)
  have "- n = l * (- q) + (l - 1 - r)"
    using e by (simp add: algebra_simps)
  moreover have "0 \<le> l - 1 - r" "l - 1 - r < l"
    using r by simp_all
  ultimately have "- n div l = - q"
    by (rule int_div_pos_eq)
  then show ?thesis by (simp add: q_def)
qed

lemma Math_ceil_div_eq: "0 < l \<Longrightarrow> Math_ceil_div n l = (n + l - 1) div l"
  unfolding Math_ceil_div_def by (simp add: ceiling_divide_eq_div neg_div_neg)

subsection \<open>The date filters\<close>

lemma resolve_month: "resolve_dateFilter env now now' ''month'' = None"
  by (simp add: resolve_dateFilter_def DATE_FILTERS_TODAY_def DATE_FILTERS_WEEK_def
      DATE_FILTERS_OVERDUE_def)

lemma in_range_overdue:
  "in_range \<lparr>gte = None, lte = None, lt = Some b\<rparr> due =
     (case due of None \<Rightarrow> False | Some d \<Rightarrow> d < b)"
  by (simp add: in_range_def split: option.split)

lemma in_range_closed:
  "in_range \<lparr>gte = Some a, lte = Some b, lt = None\<rparr> due =
     (case due of None \<Rightarrow> False | Some d \<Rightarrow> a \<le> d \<and> d \<le> b)"
  by (simp add: in_range_def split: option.split)

lemma resolve_overdue:
  "resolve_dateFilter env now now' ''overdue'' = Some \<lparr>gte = None, lte = None, lt = Some now'\<rparr>"
  by (simp add: resolve_dateFilter_def DATE_FILTERS_TODAY_def DATE_FILTERS_OVERDUE_def)

lemma resolve_today:
  "resolve_dateFilter env now now' ''today'' =
     Some \<lparr>gte = Some (setHours env now 0 0 0 0), lte = Some (setHours env now 23 59 59 999),
           lt = None\<rparr>"
  by (simp add: resolve_dateFilter_def DATE_FILTERS_TODAY_def Let_def)

lemma LocalTime_setHours:
  "LocalTime env (setHours env t h m s ms) = Day (LocalTime env t) * msPerDay + MakeTime h m s ms"
  by (simp add: LocalTime_def setHours_def UTC_def)

lemma setHours_end: "setHours env t 23 59 59 999 = setHours env t 0 0 0 0 + (msPerDay - 1)"
  by (simp add: setHours_def UTC_def MakeTime_def msPerDay_def)

lemma setHours_start_le: "setHours env t 0 0 0 0 \<le> t"
proof -
  have "Day (LocalTime env t) * msPerDay \<le> LocalTime env t"
    unfolding Day_def msPerDay_def by (simp add: algebra_simps)
  then show ?thesis
    by (simp add: setHours_def UTC_def MakeTime_def LocalTime_def)
qed

lemma setHours_end_ge: "t \<le> setHours env t 23 59 59 999"
proof -
  have "LocalTime env t mod msPerDay < msPerDay"
    by (simp add: msPerDay_def)
  moreover have "LocalTime env t = Day (LocalTime env t) * msPerDay + LocalTime env t mod msPerDay"
    by (simp add: Day_def)
  ultimately have "LocalTime env t \<le> Day (LocalTime env t) * msPerDay + (msPerDay - 1)"
    by linarith
  then show ?thesis
    by (simp add: setHours_def UTC_def MakeTime_def LocalTime_def msPerDay_def)
qed

subsection \<open>The list handler\<close>

lemma getTasks_no_query:
  "getTasks env None now now' (no_query\<lparr>q_dateFilter := Some (QStr f)\<rparr>) db =
     (if truthy (JStr f) \<and> \<not> array_includes (Object_values DATE_FILTERS) (JStr f) then
        invalid_date_filter
      else
        let wh = build_where env now now' JUndefined JUndefined (JStr f) in
        Json 200 (TaskList (take 10 (order_by env (filter (matches wh) db)))
          \<lparr>p_total = int (length (filter (matches wh) db)), p_page = 1, p_limit = 10,
           p_totalPages = Math_ceil_div (int (length (filter (matches wh) db))) 10\<rparr>))"
  by (simp add: getTasks_def no_query_def parse_param_def valid_pagination_def Let_def
      findMany_def count_def build_where_def accepts_None)

lemma fetch_failed_not_success: "fetch_failed env e \<noteq> Json 200 b"
  by (simp add: fetch_failed_def)

lemma getTasks_success:
  assumes "getTasks env fault now now' q db = Json 200 (TaskList ts pg)"
  shows "valid_pagination (parse_param 1 (q_page q)) (parse_param 10 (q_limit q)) =
           Some (p_page pg, p_limit pg) \<and>
         fault = None \<and>
         (truthy (qjs (q_status q)) \<longrightarrow> array_includes (Object_values STATUS) (qjs (q_status q))) \<and>
         (truthy (qjs (q_priority q)) \<longrightarrow>
            array_includes (Object_values PRIORITY) (qjs (q_priority q))) \<and>
         (truthy (qjs (q_dateFilter q)) \<longrightarrow>
            array_includes (Object_values DATE_FILTERS) (qjs (q_dateFilter q))) \<and>
         findMany env (query_where env now now' q) ((p_page pg - 1) * p_limit pg) (p_limit pg) db =
           Inr ts \<and>
         count (query_where env now now' q) db = Inr (p_total pg) \<and>
         p_totalPages pg = Math_ceil_div (p_total pg) (p_limit pg)"
proof (cases "valid_pagination (parse_param 1 (q_page q)) (parse_param 10 (q_limit q))")
  case None
  with assms show ?thesis by (simp add: getTasks_def Let_def)
next
  case (Some pl)
  obtain p l where pl: "pl = (p, l)" by (cases pl)
  show ?thesis
  proof (cases fault)
    case None
    with assms Some pl show ?thesis
      by (simp add: getTasks_def Let_def query_where_def invalid_date_filter_def
          fetch_failed_not_success split: if_splits sum.splits) auto
  next
    case (Some e)
    with assms \<open>valid_pagination _ _ = Some pl\<close> pl show ?thesis
      by (simp add: getTasks_def Let_def invalid_date_filter_def fetch_failed_not_success
          split: if_splits)
  qed
qed

lemma findMany_Inr:
  "findMany env w skip tk db = Inr ts \<Longrightarrow>
     ts = take (nat tk) (drop (nat skip) (order_by env (filter (matches w) db)))"
  by (auto simp: findMany_def split: if_splits)

lemma count_Inr:
  "count w db = Inr n \<Longrightarrow> n = int (length (filter (matches w) db))"
  by (auto simp: count_def split: if_splits)

lemma valid_pagination_pos:
  "valid_pagination a b = Some (p, l) \<Longrightarrow> 1 \<le> p \<and> 1 \<le> l \<and> a = Some p \<and> b = Some l"
  by (auto simp: valid_pagination_def split: option.splits if_splits)

lemma supplied_where:
  assumes "truthy (qjs v) \<longrightarrow> (\<exists>s. qjs v = JStr s)"
  shows "(if truthy (qjs v) then Some (str (qjs v)) else None) = supplied v"
  using assms by (cases v rule: qjs.cases) auto

lemma includes_is_string:
  "array_includes (Object_values STATUS) v \<Longrightarrow> \<exists>s. v = JStr s"
  "array_includes (Object_values PRIORITY) v \<Longrightarrow> \<exists>s. v = JStr s"
  "array_includes (Object_values DATE_FILTERS) v \<Longrightarrow> \<exists>s. v = JStr s"
  by (auto simp: includes_STATUS includes_PRIORITY includes_DATE_FILTERS)

lemma matches_query_where:
  assumes "truthy (qjs (q_status q)) \<longrightarrow> array_includes (Object_values STATUS) (qjs (q_status q))"
    and "truthy (qjs (q_priority q)) \<longrightarrow>
            array_includes (Object_values PRIORITY) (qjs (q_priority q))"
    and "truthy (qjs (q_dateFilter q)) \<longrightarrow>
            array_includes (Object_values DATE_FILTERS) (qjs (q_dateFilter q))"
  shows "matches (query_where env now now' q) = spec_matches env now now' q"
proof -
  have s: "supplied (q_status q) =
             (if truthy (qjs (q_status q)) then Some (str (qjs (q_status q))) else None)"
    using assms(1) by (intro supplied_where [symmetric]) (blast dest: includes_is_string)
  have p: "supplied (q_priority q) =
             (if truthy (qjs (q_priority q)) then Some (str (qjs (q_priority q))) else None)"
    using assms(2) by (intro supplied_where [symmetric]) (blast dest: includes_is_string)
  have d: "supplied (q_dateFilter q) =
             (if truthy (qjs (q_dateFilter q)) then Some (str (qjs (q_dateFilter q))) else None)"
    using assms(3) by (intro supplied_where [symmetric]) (blast dest: includes_is_string)
  have w: "query_where env now now' q =
     \<lparr>w_status = supplied (q_status q), w_priority = supplied (q_priority q),
      w_dueDate = (case supplied (q_dateFilter q) of None \<Rightarrow> None
                   | Some f \<Rightarrow> resolve_dateFilter env now now' f)\<rparr>"
    by (simp add: query_where_def build_where_def s p d)
  show ?thesis
    by (rule ext) (simp add: w matches_def spec_matches_def split: option.split)
qed

lemma getTasks_unknown_dateFilter:
  assumes "q_dateFilter q = Some (QStr f)" "f \<noteq> []"
    and "f \<notin> {''today'', ''week'', ''month'', ''overdue''}"
    and "valid_pagination (parse_param 1 (q_page q)) (parse_param 10 (q_limit q)) = Some pl"
    and "truthy (qjs (q_status q)) \<longrightarrow> array_includes (Object_values STATUS) (qjs (q_status q))"
    and "truthy (qjs (q_priority q)) \<longrightarrow>
           array_includes (Object_values PRIORITY) (qjs (q_priority q))"
  shows "getTasks env fault now now' q db = invalid_date_filter"
proof -
  have c: "\<not> (truthy (qjs (q_status q)) \<and>
                \<not> array_includes (Object_values STATUS) (qjs (q_status q)))"
    "\<not> (truthy (qjs (q_priority q)) \<and>
                \<not> array_includes (Object_values PRIORITY) (qjs (q_priority q)))"
    using assms(5,6) by blast+
  have d: "truthy (qjs (q_dateFilter q)) \<and>
           \<not> array_includes (Object_values DATE_FILTERS) (qjs (q_dateFilter q))"
    using assms(1-3) by (simp add: includes_DATE_FILTERS)
  obtain p l where "pl = (p, l)" by (cases pl)
  then show ?thesis
    using c d assms(4)
    by (simp add: getTasks_def Let_def del: de_Morgan_conj not_not)
qed

subsection \<open>Titles\<close>

lemma invalid_title_iff: "invalid_title v \<longleftrightarrow> \<not> (\<exists>s. v = JStr s \<and> \<not> blank s)"
proof (cases v)
  case (JStr s)
  have "blank [] " by (simp add: blank_def)
  then show ?thesis
    using JStr by (auto simp: invalid_title_def falsy_def strict_ne_def trim_Nil_iff)
qed (simp_all add: invalid_title_def falsy_def strict_ne_def)

lemma destructure_title:
  assumes "get_prop body ''title'' = Some (JStr s)"
  shows "\<exists>f. destructure body = Some f \<and> f_title f = JStr s"
  using assms by (cases body) (simp_all add: destructure_def)

lemma validateTask_blank_title:
  assumes "get_prop body ''title'' = Some (JStr s)" and "blank s"
  shows "validateTask env body = Inl title_required"
proof -
  from destructure_title [OF assms(1)] obtain f
    where f: "destructure body = Some f" "f_title f = JStr s" by blast
  have "invalid_title (f_title f)"
    using f(2) assms(2) by (simp add: invalid_title_iff)
  then show ?thesis
    using f(1) by (simp add: validateTask_def Let_def)
qed

lemma validateTask_Inr_title:
  assumes "validateTask env body = Inr v"
  shows "\<exists>f. destructure body = Some f \<and> \<not> invalid_title (f_title f)"
proof (cases "destructure body")
  case None
  with assms show ?thesis by (simp add: validateTask_def)
next
  case (Some f)
  with assms have "\<not> invalid_title (f_title f)"
    by (auto simp: validateTask_def Let_def split: if_splits)
  with Some show ?thesis by simp
qed

lemma titles_ok_append: "titles_ok (db @ [t]) \<longleftrightarrow> titles_ok db \<and> \<not> blank (t_title t)"
  by (simp add: titles_ok_def)

lemma prisma_create_titles:
  assumes "prisma_create fault new_id now d db = Inr (t, db')" "titles_ok db" "\<not> blank (c_title d)"
  shows "titles_ok db'"
  using assms
  by (auto simp: prisma_create_def Let_def titles_ok_append split: option.splits if_splits)

lemma prisma_update_titles:
  assumes "prisma_update fault now i d db = Inr (t, db')" "titles_ok db"
    and "\<And>s. u_title d = Some s \<Longrightarrow> \<not> blank s"
  shows "titles_ok db'"
proof -
  from assms(1) obtain t0 where
    f: "find (\<lambda>t. t_id t = i) db = Some t0" and
    db': "db' = map (\<lambda>x. if t_id x = i then apply_update now d t0 else x) db"
    by (auto simp: prisma_update_def Let_def split: option.splits if_splits)
  from f have "t0 \<in> set db"
    by (auto simp: find_Some_iff)
  with assms(2) have "\<not> blank (t_title t0)"
    by (simp add: titles_ok_def list_all_iff)
  with assms(3) have "\<not> blank (t_title (apply_update now d t0))"
    by (cases "u_title d") (simp_all add: apply_update_def)
  with assms(2) show ?thesis
    by (auto simp: db' titles_ok_def list_all_iff)
qed

lemma prisma_delete_titles:
  assumes "prisma_delete fault i db = Inr (t, db')" "titles_ok db"
  shows "titles_ok db'"
  using assms
  by (auto simp: prisma_delete_def titles_ok_def list_all_iff split: option.splits)

lemma createTask_titles:
  assumes "titles_ok db"
  shows "titles_ok (snd (createTask env fault new_id now body db))"
proof (cases "destructure body")
  case None
  with assms show ?thesis by (simp add: createTask_def)
next
  case (Some f)
  show ?thesis
  proof (cases "invalid_title (f_title f)")
    case True
    with Some assms show ?thesis by (simp add: createTask_def Let_def)
  next
    case False
    then obtain s where s: "f_title f = JStr s" "\<not> blank s"
      by (auto simp: invalid_title_iff)
    then have nb: "\<not> blank (trim (str (f_title f)))"
      by (simp add: trim_not_blank trim_Nil_iff)
    let ?D = "\<lparr>c_title = trim (str (f_title f)),
               c_status = (if truthy (default_to (JStr STATUS_TODO) (f_status f))
                           then str (default_to (JStr STATUS_TODO) (f_status f)) else STATUS_TODO),
               c_priority = (if truthy (default_to (JStr PRIORITY_MEDIUM) (f_priority f))
                             then str (default_to (JStr PRIORITY_MEDIUM) (f_priority f))
                             else PRIORITY_MEDIUM),
               c_dueDate = (if truthy (f_dueDate f) then Some (newDate env (f_dueDate f))
                            else None)\<rparr>"
    show ?thesis
    proof (cases "prisma_create fault new_id now ?D db")
      case (Inl e)
      with Some False assms show ?thesis
        by (simp add: createTask_def Let_def)
    next
      case (Inr r)
      obtain t db' where r: "r = (t, db')" by (cases r)
      have "titles_ok db'"
        using Inr r assms nb by (intro prisma_create_titles [of fault new_id now ?D db t db']) simp_all
      with Some False assms Inr r show ?thesis
        by (simp add: createTask_def Let_def)
    qed
  qed
qed

lemma updateTask_titles:
  assumes "titles_ok db" and "destructure body = Some f" and "\<not> invalid_title (f_title f)"
  shows "titles_ok (snd (updateTask env fault now i body db))"
proof -
  from assms(3) obtain s where s: "f_title f = JStr s" "\<not> blank s"
    by (auto simp: invalid_title_iff)
  then have nb: "\<not> blank (trim (str (f_title f)))"
    by (simp add: trim_not_blank trim_Nil_iff)
  let ?D = "\<lparr>u_title = (if truthy (f_title f) then Some (trim (str (f_title f))) else None),
             u_status = (if truthy (f_status f) then Some (str (f_status f)) else None),
             u_priority = (if truthy (f_priority f) then Some (str (f_priority f)) else None),
             u_dueDate =
               (if f_dueDate f \<noteq> JUndefined then
                  Some (if truthy (f_dueDate f) then Some (newDate env (f_dueDate f)) else None)
                else None)\<rparr>"
  show ?thesis
  proof (cases "prisma_update fault now i ?D db")
    case (Inl e)
    with assms(1,2) show ?thesis
      by (simp add: updateTask_def Let_def)
  next
    case (Inr r)
    obtain t db' where r: "r = (t, db')" by (cases r)
    have "titles_ok db'"
      using Inr r assms(1) nb
      by (intro prisma_update_titles [of fault now i ?D db t db']) (simp_all split: if_splits)
    with assms(1,2) Inr r show ?thesis
      by (simp add: updateTask_def Let_def)
  qed
qed

lemma deleteTask_titles:
  assumes "titles_ok db"
  shows "titles_ok (snd (deleteTask env fault i db))"
proof (cases "prisma_delete fault i db")
  case (Inl e)
  with assms show ?thesis by (simp add: deleteTask_def)
next
  case (Inr r)
  obtain t db' where r: "r = (t, db')" by (cases r)
  have "titles_ok db'"
    using Inr r assms by (intro prisma_delete_titles [of fault i db t db']) simp_all
  with assms Inr r show ?thesis by (simp add: deleteTask_def)
qed

lemma handle_titles:
  assumes "titles_ok db"
  shows "titles_ok (snd (handle env r db))"
proof (cases r)
  case (GET fault now now' q)
  with assms show ?thesis by (simp add: router_get_def)
next
  case (POST fault new_id now body)
  with assms show ?thesis
    by (simp add: router_post_def createTask_titles split: sum.split)
next
  case (PATCH fault now i body)
  show ?thesis
  proof (cases "validateTask env body")
    case (Inl a)
    with PATCH assms show ?thesis by (simp add: router_patch_def)
  next
    case (Inr v)
    from validateTask_Inr_title [OF Inr] obtain f
      where "destructure body = Some f" "\<not> invalid_title (f_title f)" by blast
    with PATCH Inr assms show ?thesis
      by (simp add: router_patch_def updateTask_titles)
  qed
next
  case (DELETE fault i)
  with assms show ?thesis by (simp add: router_delete_def deleteTask_titles)
qed

lemma serve_titles: "titles_ok db \<Longrightarrow> titles_ok (serve env rs db)"
  by (induction rs arbitrary: db) (simp_all add: handle_titles)

subsection \<open>Unknown identifiers\<close>

lemma validateTask_Inr:
  assumes "validateTask env body = Inr v"
  shows "\<exists>f. destructure body = Some f \<and> \<not> invalid_title (f_title f) \<and>
           (truthy (f_status f) \<longrightarrow> array_includes (Object_values STATUS) (f_status f)) \<and>
           (truthy (f_priority f) \<longrightarrow> array_includes (Object_values PRIORITY) (f_priority f)) \<and>
           (f_dueDate f = JUndefined \<or> f_dueDate f = JNull \<or>
            \<not> getTime_isNaN (newDate env (f_dueDate f))) \<and>
           (v_priority v = None) = (\<not> truthy (f_priority f))"
proof (cases "destructure body")
  case None
  with assms show ?thesis by (simp add: validateTask_def)
next
  case (Some f)
  have "\<not> invalid_title (f_title f) \<and>
           (truthy (f_status f) \<longrightarrow> array_includes (Object_values STATUS) (f_status f)) \<and>
           (truthy (f_priority f) \<longrightarrow> array_includes (Object_values PRIORITY) (f_priority f)) \<and>
           (f_dueDate f = JUndefined \<or> f_dueDate f = JNull \<or>
            \<not> getTime_isNaN (newDate env (f_dueDate f))) \<and>
           (v_priority v = None) = (\<not> truthy (f_priority f))"
    using assms Some
    by (simp add: validateTask_def Let_def split: if_splits) auto
  with Some show ?thesis by simp
qed

lemma find_None_id: "i \<notin> set (map t_id db) \<Longrightarrow> find (\<lambda>t. t_id t = i) db = None"
  by (auto simp: find_None_iff)

lemma deleteTask_unknown:
  assumes "i \<noteq> []" "i \<notin> set (map t_id db)"
  shows "deleteTask env None i db = (task_not_found, db)"
  using assms
  by (simp add: deleteTask_def prisma_delete_def find_None_id record_not_found_def)

lemma updateTask_unknown:
  assumes "i \<noteq> []" "i \<notin> set (map t_id db)" and v: "validateTask env body = Inr v"
    and np: "v_priority v = None"
  shows "updateTask env None now i body db = (task_not_found, db)"
proof -
  from validateTask_Inr [OF v] obtain f where
    f: "destructure body = Some f" and t: "\<not> invalid_title (f_title f)" and
    s: "truthy (f_status f) \<longrightarrow> array_includes (Object_values STATUS) (f_status f)" and
    d: "f_dueDate f = JUndefined \<or> f_dueDate f = JNull \<or>
        \<not> getTime_isNaN (newDate env (f_dueDate f))" and
    p: "(v_priority v = None) = (\<not> truthy (f_priority f))"
    by auto
  from p np have p': "\<not> truthy (f_priority f)" by simp
  from t obtain x where x: "f_title f = JStr x" "\<not> blank x"
    by (auto simp: invalid_title_iff)
  have ty: "\<not> (truthy (f_title f) \<and> strict_ne (typeof (f_title f)) ''string'')"
    using x by (simp add: strict_ne_def)
  have s': "\<not> (truthy (f_status f) \<and> \<not> array_includes (Object_values STATUS) (f_status f))"
    using s by blast
  have dd: "(if f_dueDate f \<noteq> JUndefined then
               Some (if truthy (f_dueDate f) then Some (newDate env (f_dueDate f)) else None)
             else None) \<noteq> Some (Some InvalidDate)"
    using d by (cases "newDate env (f_dueDate f)") auto
  have a: "accepts TaskStatus (if truthy (f_status f) then Some (str (f_status f)) else None)"
    using s by (simp add: accepts_None accepts_status)
  show ?thesis
    using assms(1) s' p' ty dd a
    by (simp add: updateTask_def f Let_def prisma_update_def find_None_id [OF assms(2)]
        update_failed_def record_not_found_def accepts_None del: de_Morgan_conj not_not)
qed

text \<open>
  An update whose payload carries a priority never reaches the table: the value the
  validation lets through is not a member of the client's enumeration.
\<close>

lemma updateTask_priority_refused:
  "updateTask sample_env None 7 ''zz'' (JObj [(''title'', JStr ''x''), (''priority'', JStr ''high'')])
     [sample_task] =
     (Json 400 (Failure (failure ''Failed to update task'')), [sample_task])"
  by code_simp

subsection \<open>The update controller\<close>

text \<open>
  What a successful update changes: the controller applies the fields of the payload
  that are truthy (for the due date: present) and leaves every other field of the task,
  and every other task, as it was.
\<close>

lemma updateTask_frame:
  assumes ok: "updateTask env fault now i body db = (Json 200 (TaskData t'), db')"
    and f: "destructure body = Some f"
  shows "\<exists>t. find (\<lambda>x. t_id x = i) db = Some t \<and>
           t_id t' = t_id t \<and> t_createdAt t' = t_createdAt t \<and>
           (\<not> truthy (f_title f) \<longrightarrow> t_title t' = t_title t) \<and>
           (\<not> truthy (f_status f) \<longrightarrow> t_status t' = t_status t) \<and>
           (\<not> truthy (f_priority f) \<longrightarrow> t_priority t' = t_priority t) \<and>
           (f_dueDate f = JUndefined \<longrightarrow> t_dueDate t' = t_dueDate t) \<and>
           db' = map (\<lambda>x. if t_id x = i then t' else x) db"
proof -
  let ?D = "\<lparr>u_title = (if truthy (f_title f) then Some (trim (str (f_title f))) else None),
             u_status = (if truthy (f_status f) then Some (str (f_status f)) else None),
             u_priority = (if truthy (f_priority f) then Some (str (f_priority f)) else None),
             u_dueDate =
               (if f_dueDate f \<noteq> JUndefined then
                  Some (if truthy (f_dueDate f) then Some (newDate env (f_dueDate f)) else None)
                else None)\<rparr>"
  have nf: "update_failed env e \<noteq> Json 200 b" for e b
    by (simp add: update_failed_def task_not_found_def)
  from ok f have u: "prisma_update fault now i ?D db = Inr (t', db')"
    by (cases "prisma_update fault now i ?D db")
      (auto simp: updateTask_def Let_def nf split: if_splits)
  then obtain t where t: "find (\<lambda>x. t_id x = i) db = Some t" "t' = apply_update now ?D t"
    "db' = map (\<lambda>x. if t_id x = i then t' else x) db"
    by (auto simp: prisma_update_def Let_def split: option.splits if_splits)
  show ?thesis
    using t by (simp add: apply_update_def)
qed

section \<open>Partial updates\<close>

text \<open>
  C1. The update route runs the validation middleware of the create route before the
  controller, and that middleware demands a title. An update whose payload holds only
  \<^verbatim>\<open>status\<close> is therefore answered with status 400 and the title error, whatever the
  store holds, and the store is left as it was. The controller on its own accepts the
  same payload: it changes the status (and the update time) of the task and leaves its
  title, priority and due date as they were.
\<close>

theorem patch_with_status_only_is_rejected:
  "router_patch env fault now i (JObj [(''status'', JStr STATUS_DONE)]) db = (title_required, db) \<and>
   status_code title_required = 400 \<and>
   updateTask sample_env None 7 ''a1'' (JObj [(''status'', JStr ''TODO'')])
     [sample_task, other_task] =
     (Json 200 (TaskData (sample_task\<lparr>t_status := ''TODO'', t_updatedAt := 7\<rparr>)),
      [sample_task\<lparr>t_status := ''TODO'', t_updatedAt := 7\<rparr>, other_task])"
proof -
  have "validateTask env (JObj [(''status'', JStr STATUS_DONE)]) = Inl title_required"
    by (simp add: validateTask_def destructure_def invalid_title_def falsy_def)
  moreover have "updateTask sample_env None 7 ''a1'' (JObj [(''status'', JStr ''TODO'')])
     [sample_task, other_task] =
     (Json 200 (TaskData (sample_task\<lparr>t_status := ''TODO'', t_updatedAt := 7\<rparr>)),
      [sample_task\<lparr>t_status := ''TODO'', t_updatedAt := 7\<rparr>, other_task])"
    by code_simp
  ultimately show ?thesis
    by (simp add: router_patch_def title_required_def)
qed

section \<open>The allowed values in a rejection\<close>

text \<open>
  C2. A status that is a string outside the enumeration, here the case variant
  \<^verbatim>\<open>todo\<close>, is rejected with status 400 by the middleware, by the create controller and
  by the list handler. The allowed values of the answer are \<^verbatim>\<open>Object.values(STATUS)\<close>,
  which holds the three members and, as a fourth element, the \<^verbatim>\<open>_ALL\<close> array; the
  message repeats the members accordingly.
\<close>

theorem invalid_status_answer_lists_the_ALL_array:
  "router_post env fault new_id now
     (JObj [(''title'', JStr ''a''), (''status'', JStr ''todo'')]) db =
     (Json 400 (Failure
        \<lparr>error = ''Invalid status. Valid options are case-sensitive: TODO, IN_PROGRESS, DONE, TODO,IN_PROGRESS,DONE'',
         field = Some ''status'',
         validOptions = Some (Options [EStr ''TODO'', EStr ''IN_PROGRESS'', EStr ''DONE'',
                                       EArr [''TODO'', ''IN_PROGRESS'', ''DONE'']]),
         receivedValue = Some (JStr ''todo''), details = None\<rparr>), db) \<and>
   createTask env fault new_id now
     (JObj [(''title'', JStr ''a''), (''status'', JStr ''todo'')]) db =
     (Json 400 (Failure
        \<lparr>error = ''Invalid status. Valid options: TODO, IN_PROGRESS, DONE, TODO,IN_PROGRESS,DONE'',
         field = None,
         validOptions = Some (Options [EStr ''TODO'', EStr ''IN_PROGRESS'', EStr ''DONE'',
                                       EArr [''TODO'', ''IN_PROGRESS'', ''DONE'']]),
         receivedValue = None, details = None\<rparr>), db) \<and>
   getTasks env fault now now' (no_query\<lparr>q_status := Some (QStr ''todo'')\<rparr>) db =
     Json 400 (Failure
        \<lparr>error = ''Invalid status. Valid options: TODO, IN_PROGRESS, DONE, TODO,IN_PROGRESS,DONE'',
         field = None,
         validOptions = Some (Options [EStr ''TODO'', EStr ''IN_PROGRESS'', EStr ''DONE'',
                                       EArr [''TODO'', ''IN_PROGRESS'', ''DONE'']]),
         receivedValue = None, details = None\<rparr>)"
proof -
  have v: "Object_values STATUS = [EStr ''TODO'', EStr ''IN_PROGRESS'', EStr ''DONE'',
                                   EArr [''TODO'', ''IN_PROGRESS'', ''DONE'']]"
    by (simp add: Object_values_def STATUS_def STATUS_TODO_def STATUS_IN_PROGRESS_def
        STATUS_DONE_def)
  have j: "join_values '', '' (Object_values STATUS) =
           ''TODO, IN_PROGRESS, DONE, TODO,IN_PROGRESS,DONE''"
    by (simp add: v join_values_def)
  have d: "destructure (JObj [(''title'', JStr ''a''), (''status'', JStr ''todo'')]) =
           Some \<lparr>f_title = JStr ''a'', f_status = JStr ''todo'', f_priority = JUndefined,
                 f_dueDate = JUndefined\<rparr>"
    by (simp add: destructure_def)
  have t: "\<not> invalid_title (JStr ''a'')"
    by (simp add: invalid_title_def falsy_def strict_ne_def trim_def white_space_def)
  have 1: "validateTask env (JObj [(''title'', JStr ''a''), (''status'', JStr ''todo'')]) =
     Inl (Json 400 (Failure
        \<lparr>error = ''Invalid status. Valid options are case-sensitive: TODO, IN_PROGRESS, DONE, TODO,IN_PROGRESS,DONE'',
         field = Some ''status'',
         validOptions = Some (Options [EStr ''TODO'', EStr ''IN_PROGRESS'', EStr ''DONE'',
                                       EArr [''TODO'', ''IN_PROGRESS'', ''DONE'']]),
         receivedValue = Some (JStr ''todo''), details = None\<rparr>))"
    by (simp add: validateTask_def d t Let_def strict_ne_def includes_STATUS j failure_def)
      (simp add: v)
  have 2: "createTask env fault new_id now
     (JObj [(''title'', JStr ''a''), (''status'', JStr ''todo'')]) db =
     (Json 400 (Failure
        \<lparr>error = ''Invalid status. Valid options: TODO, IN_PROGRESS, DONE, TODO,IN_PROGRESS,DONE'',
         field = None,
         validOptions = Some (Options [EStr ''TODO'', EStr ''IN_PROGRESS'', EStr ''DONE'',
                                       EArr [''TODO'', ''IN_PROGRESS'', ''DONE'']]),
         receivedValue = None, details = None\<rparr>), db)"
    by (simp add: createTask_def d t Let_def default_to_def includes_STATUS j failure_def)
      (simp add: v)
  have 3: "getTasks env fault now now' (no_query\<lparr>q_status := Some (QStr ''todo'')\<rparr>) db =
     Json 400 (Failure
        \<lparr>error = ''Invalid status. Valid options: TODO, IN_PROGRESS, DONE, TODO,IN_PROGRESS,DONE'',
         field = None,
         validOptions = Some (Options [EStr ''TODO'', EStr ''IN_PROGRESS'', EStr ''DONE'',
                                       EArr [''TODO'', ''IN_PROGRESS'', ''DONE'']]),
         receivedValue = None, details = None\<rparr>)"
    by (simp add: getTasks_def no_query_def parse_param_def valid_pagination_def Let_def
        includes_STATUS j failure_def) (simp add: v)
  show ?thesis
    using 1 2 3 by (simp add: router_post_def)
qed

section \<open>Failures of the store\<close>

text \<open>
  C3. When the store fails for a reason of its own (an error whose code is not
  \<^verbatim>\<open>P2025\<close>), the create and the update routes answer with status 400 and the
  messages \<^verbatim>\<open>Failed to create task\<close> and \<^verbatim>\<open>Failed to update task\<close>; the delete route
  answers the same failure with status 500. The store is left as it was.
\<close>

theorem store_failure_on_create_and_update_is_400:
  "router_post env (Some store_down) new_id now (JObj [(''title'', JStr ''a'')]) db =
     (Json 400 (Failure ((failure ''Failed to create task'')
        \<lparr>details := dev_details env store_down\<rparr>)), db) \<and>
   router_patch env (Some store_down) now ''a1'' (JObj [(''title'', JStr ''a'')]) db =
     (Json 400 (Failure ((failure ''Failed to update task'')
        \<lparr>details := dev_details env store_down\<rparr>)), db) \<and>
   router_delete env (Some store_down) ''a1'' db =
     (Json 500 (Failure ((failure ''Failed to delete task'')
        \<lparr>details := dev_details env store_down\<rparr>)), db) \<and>
   code store_down \<noteq> Some ''P2025''"
proof -
  have d: "destructure (JObj [(''title'', JStr ''a'')]) =
           Some \<lparr>f_title = JStr ''a'', f_status = JUndefined, f_priority = JUndefined,
                 f_dueDate = JUndefined\<rparr>"
    by (simp add: destructure_def)
  have t: "\<not> invalid_title (JStr ''a'')"
    by (simp add: invalid_title_def falsy_def strict_ne_def trim_def white_space_def)
  have v: "\<exists>v. validateTask env (JObj [(''title'', JStr ''a'')]) = Inr v"
    by (simp add: validateTask_def d t Let_def)
  have c: "code store_down \<noteq> Some ''P2025''"
    by (simp add: store_down_def)
  have 1: "createTask env (Some store_down) new_id now (JObj [(''title'', JStr ''a'')]) db =
     (Json 400 (Failure ((failure ''Failed to create task'')
        \<lparr>details := dev_details env store_down\<rparr>)), db)"
    by (simp add: createTask_def d t Let_def default_to_def includes_STATUS includes_PRIORITY
        STATUS_TODO_def PRIORITY_MEDIUM_def prisma_create_def)
  have 2: "updateTask env (Some store_down) now ''a1'' (JObj [(''title'', JStr ''a'')]) db =
     (Json 400 (Failure ((failure ''Failed to update task'')
        \<lparr>details := dev_details env store_down\<rparr>)), db)"
    using c by (simp add: updateTask_def d Let_def strict_ne_def prisma_update_def update_failed_def)
  have 3: "deleteTask env (Some store_down) ''a1'' db =
     (Json 500 (Failure ((failure ''Failed to delete task'')
        \<lparr>details := dev_details env store_down\<rparr>)), db)"
    using c by (simp add: deleteTask_def prisma_delete_def)
  from v obtain x where "validateTask env (JObj [(''title'', JStr ''a'')]) = Inr x" ..
  then show ?thesis
    using 1 2 3 c by (simp add: router_post_def router_patch_def router_delete_def)
qed

section \<open>Filters\<close>

text \<open>
  C4. The handler joins the filters by AND in one filter object, but a priority filter
  never reaches the table: the values the handler lets through are \<^verbatim>\<open>low\<close>,
  \<^verbatim>\<open>medium\<close> and \<^verbatim>\<open>high\<close>, the client generated from the schema takes
  \<^verbatim>\<open>LOW\<close>, \<^verbatim>\<open>MEDIUM\<close> and \<^verbatim>\<open>HIGH\<close>, and so it refuses the query. A list
  request filtered by priority \<^verbatim>\<open>high\<close>, alone or together with status \<^verbatim>\<open>DONE\<close>,
  is answered with status 500 whatever the store holds, and lists no task. The status
  filter alone works: a task with status DONE is listed under \<^verbatim>\<open>status=DONE\<close> and not
  under \<^verbatim>\<open>status=TODO\<close>.
\<close>

theorem priority_filter_is_refused:
  "getTasks env None now now' (no_query\<lparr>q_priority := Some (QStr PRIORITY_HIGH)\<rparr>) db =
     fetch_failed env invalid_enum_argument \<and>
   getTasks env None now now'
     (no_query\<lparr>q_status := Some (QStr STATUS_DONE), q_priority := Some (QStr PRIORITY_HIGH)\<rparr>) db =
     fetch_failed env invalid_enum_argument \<and>
   status_code (fetch_failed env invalid_enum_argument) = 500 \<and>
   listed (fetch_failed env invalid_enum_argument) = [] \<and>
   getTasks sample_env None 5 6 (no_query\<lparr>q_status := Some (QStr STATUS_DONE)\<rparr>)
     [sample_task, other_task] =
     Json 200 (TaskList [sample_task]
       \<lparr>p_total = 1, p_page = 1, p_limit = 10, p_totalPages = 1\<rparr>) \<and>
   getTasks sample_env None 5 6 (no_query\<lparr>q_status := Some (QStr STATUS_TODO)\<rparr>)
     [sample_task, other_task] =
     Json 200 (TaskList [other_task]
       \<lparr>p_total = 1, p_page = 1, p_limit = 10, p_totalPages = 1\<rparr>)"
proof -
  have r: "\<not> accepts Priority (Some ''high'')"
    by (simp add: accepts_def Priority_def)
  have 1: "getTasks env None now now' (no_query\<lparr>q_priority := Some (QStr ''high'')\<rparr>) db =
           fetch_failed env invalid_enum_argument"
    using r
    by (simp add: getTasks_def no_query_def parse_param_def valid_pagination_def Let_def
        includes_PRIORITY build_where_def findMany_def)
  have 2: "getTasks env None now now'
             (no_query\<lparr>q_status := Some (QStr ''DONE''), q_priority := Some (QStr ''high'')\<rparr>) db =
           fetch_failed env invalid_enum_argument"
    using r
    by (simp add: getTasks_def no_query_def parse_param_def valid_pagination_def Let_def
        includes_STATUS includes_PRIORITY build_where_def findMany_def)
  have 3: "getTasks sample_env None 5 6 (no_query\<lparr>q_status := Some (QStr ''DONE'')\<rparr>)
             [sample_task, other_task] =
           Json 200 (TaskList [sample_task]
             \<lparr>p_total = 1, p_page = 1, p_limit = 10, p_totalPages = 1\<rparr>)"
    by code_simp
  have 4: "getTasks sample_env None 5 6 (no_query\<lparr>q_status := Some (QStr ''TODO'')\<rparr>)
             [sample_task, other_task] =
           Json 200 (TaskList [other_task]
             \<lparr>p_total = 1, p_page = 1, p_limit = 10, p_totalPages = 1\<rparr>)"
    by code_simp
  show ?thesis
    using 1 2 3 4
    by (simp add: PRIORITY_HIGH_def STATUS_DONE_def STATUS_TODO_def fetch_failed_def)
qed

section \<open>Pagination\<close>

text \<open>
  C5. When a list request with page \<open>p\<close> and limit \<open>l\<close> is answered with success, the
  answer reports the parsed \<open>p\<close> and \<open>l\<close>, both at least 1; it holds at most \<open>l\<close> tasks,
  namely the \<open>l\<close> that follow the first \<open>(p - 1) * l\<close> of the matching tasks in order;
  \<open>total\<close> counts the tasks matching the same predicate; and \<open>totalPages\<close> is the
  ceiling of \<open>total / l\<close>, which is 0 exactly when \<open>total\<close> is 0. On an empty store,
  page 1 with limit 10 gives no tasks, \<open>total = 0\<close> and \<open>totalPages = 0\<close>.
\<close>

theorem getTasks_pagination:
  "(getTasks env fault now now' q db = Json 200 (TaskList ts pg) \<longrightarrow>
      parse_param 1 (q_page q) = Some (p_page pg) \<and>
      parse_param 10 (q_limit q) = Some (p_limit pg) \<and>
      1 \<le> p_page pg \<and> 1 \<le> p_limit pg \<and>
      int (length ts) \<le> p_limit pg \<and>
      ts = take (nat (p_limit pg)) (drop (nat ((p_page pg - 1) * p_limit pg))
             (order_by env (filter (spec_matches env now now' q) db))) \<and>
      p_total pg = int (length (filter (spec_matches env now now' q) db)) \<and>
      p_totalPages pg = \<lceil>real_of_int (p_total pg) / real_of_int (p_limit pg)\<rceil> \<and>
      p_totalPages pg = (p_total pg + p_limit pg - 1) div p_limit pg \<and>
      (p_totalPages pg = 0) = (p_total pg = 0)) \<and>
   getTasks env None now now'
     (no_query\<lparr>q_page := Some (QStr ''1''), q_limit := Some (QStr ''10'')\<rparr>) [] =
     Json 200 (TaskList [] \<lparr>p_total = 0, p_page = 1, p_limit = 10, p_totalPages = 0\<rparr>)"
proof (intro conjI impI)
  show "getTasks env None now now'
     (no_query\<lparr>q_page := Some (QStr ''1''), q_limit := Some (QStr ''10'')\<rparr>) [] =
     Json 200 (TaskList [] \<lparr>p_total = 0, p_page = 1, p_limit = 10, p_totalPages = 0\<rparr>)"
    by (simp add: getTasks_def no_query_def parse_param_def parseInt_def strip_sign_def
        strip_radix_def digit_of_def white_space_def valid_pagination_def Let_def
        build_where_def findMany_def count_def order_by_def Math_ceil_div_def accepts_None)
next
  assume ok: "getTasks env fault now now' q db = Json 200 (TaskList ts pg)"
  note s = getTasks_success [OF ok]
  from s have vp: "valid_pagination (parse_param 1 (q_page q)) (parse_param 10 (q_limit q)) =
           Some (p_page pg, p_limit pg)" by simp
  note pos = valid_pagination_pos [OF vp]
  have m: "matches (query_where env now now' q) = spec_matches env now now' q"
    using s by (intro matches_query_where) simp_all
  have ts: "ts = take (nat (p_limit pg)) (drop (nat ((p_page pg - 1) * p_limit pg))
                (order_by env (filter (spec_matches env now now' q) db)))"
    using s findMany_Inr [of env "query_where env now now' q" _ _ db ts] by (simp add: m)
  have "length ts \<le> nat (p_limit pg)"
    by (subst ts) simp
  then have len: "int (length ts) \<le> p_limit pg"
    using pos by linarith
  have tot: "p_total pg = int (length (filter (spec_matches env now now' q) db))"
    using s count_Inr [of "query_where env now now' q" db "p_total pg"] by (simp add: m)
  have tp: "p_totalPages pg = (p_total pg + p_limit pg - 1) div p_limit pg"
    using s pos by (simp add: Math_ceil_div_eq)
  have tp': "p_totalPages pg = \<lceil>real_of_int (p_total pg) / real_of_int (p_limit pg)\<rceil>"
    using s by (simp add: Math_ceil_div_def)
  have nonneg: "0 \<le> p_total pg" using tot by simp
  have "0 < (p_total pg + p_limit pg - 1) div p_limit pg \<longleftrightarrow>
          p_limit pg \<le> p_total pg + p_limit pg - 1"
    using pos by (intro pos_imp_zdiv_pos_iff) simp
  moreover have "0 \<le> (p_total pg + p_limit pg - 1) div p_limit pg"
    using pos nonneg by (intro pos_imp_zdiv_nonneg_iff [THEN iffD2]) simp_all
  ultimately have z: "(p_totalPages pg = 0) = (p_total pg = 0)"
    using tp nonneg by linarith
  show "parse_param 1 (q_page q) = Some (p_page pg)"
    and "parse_param 10 (q_limit q) = Some (p_limit pg)"
    and "1 \<le> p_page pg" and "1 \<le> p_limit pg"
    using pos by simp_all
  show "int (length ts) \<le> p_limit pg" by (rule len)
  show "ts = take (nat (p_limit pg)) (drop (nat ((p_page pg - 1) * p_limit pg))
             (order_by env (filter (spec_matches env now now' q) db)))" by (rule ts)
  show "p_total pg = int (length (filter (spec_matches env now now' q) db))" by (rule tot)
  show "p_totalPages pg = \<lceil>real_of_int (p_total pg) / real_of_int (p_limit pg)\<rceil>"
    by (rule tp')
  show "p_totalPages pg = (p_total pg + p_limit pg - 1) div p_limit pg" by (rule tp)
  show "(p_totalPages pg = 0) = (p_total pg = 0)" by (rule z)
qed

theorem getTasks_pagination_witness:
  "getTasks sample_env None 5 6
     (no_query\<lparr>q_page := Some (QStr ''2''), q_limit := Some (QStr ''1'')\<rparr>)
     [sample_task, other_task] =
     Json 200 (TaskList [sample_task]
       \<lparr>p_total = 2, p_page = 2, p_limit = 1, p_totalPages = 2\<rparr>) \<and>
   int (length [sample_task]) \<le> 1 \<and>
   [sample_task] = take (nat 1) (drop (nat ((2 - 1) * 1))
     (order_by sample_env (filter (spec_matches sample_env 5 6
        (no_query\<lparr>q_page := Some (QStr ''2''), q_limit := Some (QStr ''1'')\<rparr>))
        [sample_task, other_task]))) \<and>
   (2::int) = (2 + 1 - 1) div 1"
proof -
  let ?q = "no_query\<lparr>q_page := Some (QStr ''2''), q_limit := Some (QStr ''1'')\<rparr>"
  let ?pg = "\<lparr>p_total = 2, p_page = 2, p_limit = 1, p_totalPages = 2\<rparr>"
  have e: "getTasks sample_env None 5 6 ?q [sample_task, other_task] =
           Json 200 (TaskList [sample_task] ?pg)"
    by code_simp
  note th = getTasks_pagination [where env = sample_env and fault = None and now = 5
      and now' = 6 and q = ?q and db = "[sample_task, other_task]" and ts = "[sample_task]"
      and pg = ?pg, THEN conjunct1, rule_format, OF e]
  have 1: "int (length [sample_task]) \<le> p_limit ?pg"
    using th by blast
  have 2: "[sample_task] = take (nat (p_limit ?pg)) (drop (nat ((p_page ?pg - 1) * p_limit ?pg))
             (order_by sample_env (filter (spec_matches sample_env 5 6 ?q)
                [sample_task, other_task])))"
    using th by blast
  have 3: "p_totalPages ?pg = (p_total ?pg + p_limit ?pg - 1) div p_limit ?pg"
    using th by blast
  from 2 have b2: "[sample_task] = take (nat 1) (drop (nat ((2 - 1) * 1))
             (order_by sample_env (filter (spec_matches sample_env 5 6 ?q)
                [sample_task, other_task])))"
    by (simp only: pagination.simps)
  from 1 have b1: "int (length [sample_task]) \<le> 1" by (simp only: pagination.simps)
  from 3 have b3: "(2::int) = (2 + 1 - 1) div 1" by (simp only: pagination.simps)
  from e b1 b2 b3 show ?thesis by blast
qed

section \<open>Blank titles\<close>

text \<open>
  C6. A create or update request whose \<^verbatim>\<open>title\<close> is a blank string (empty, or white
  space only) is rejected by the validation with status 400 and an error that names the
  field \<^verbatim>\<open>title\<close>, and the store is left as it was. No request stores a blank title:
  every request keeps a store without blank titles free of them, so no sequence of
  requests served from the empty store leads to one.
\<close>

theorem blank_title_rejected_never_stored:
  "(get_prop body ''title'' = Some (JStr s) \<and> blank s \<longrightarrow>
      router_post env fault new_id now body db = (title_required, db) \<and>
      router_patch env fault now i body db = (title_required, db)) \<and>
   title_required =
     Json 400 (Failure
       \<lparr>error = ''Title is required and must be a non-empty string'', field = Some ''title'',
        validOptions = None, receivedValue = None, details = None\<rparr>) \<and>
   (titles_ok db \<longrightarrow> titles_ok (snd (handle env r db))) \<and>
   titles_ok (serve env rs [])"
proof -
  have "titles_ok (serve env rs [])"
    by (rule serve_titles) (simp add: titles_ok_def)
  moreover have "title_required =
     Json 400 (Failure
       \<lparr>error = ''Title is required and must be a non-empty string'', field = Some ''title'',
        validOptions = None, receivedValue = None, details = None\<rparr>)"
    by (simp add: title_required_def failure_def)
  ultimately show ?thesis
    by (simp add: router_post_def router_patch_def validateTask_blank_title handle_titles)
qed

theorem blank_title_rejected_never_stored_witness:
  "get_prop (JObj [(''title'', JStr ''  ''), (''status'', JStr ''DONE'')]) ''title'' =
     Some (JStr ''  '') \<and> blank ''  '' \<and>
   router_post sample_env None ''c3'' 7
     (JObj [(''title'', JStr ''  ''), (''status'', JStr ''DONE'')]) [sample_task] =
     (title_required, [sample_task]) \<and>
   router_patch sample_env None 7 ''a1''
     (JObj [(''title'', JStr ''  ''), (''status'', JStr ''DONE'')]) [sample_task] =
     (title_required, [sample_task]) \<and>
   titles_ok [sample_task] \<and>
   titles_ok (snd (handle sample_env
     (PATCH None 7 ''a1'' (JObj [(''title'', JStr '' New title '')])) [sample_task]))"
proof -
  let ?b = "JObj [(''title'', JStr ''  ''), (''status'', JStr ''DONE'')]"
  let ?r = "PATCH None 7 ''a1'' (JObj [(''title'', JStr '' New title '')])"
  have a: "get_prop ?b ''title'' = Some (JStr ''  '') \<and> blank ''  ''"
    by (simp add: blank_def white_space_def)
  have b: "titles_ok [sample_task]"
    by (simp add: titles_ok_def blank_def white_space_def sample_task_def)
  note th = blank_title_rejected_never_stored [where body = ?b and s = "''  ''"
      and env = sample_env and fault = None and new_id = "''c3''" and now = 7
      and db = "[sample_task]" and i = "''a1''" and r = ?r and rs = "[]"]
  from th a have 1: "router_post sample_env None ''c3'' 7 ?b [sample_task] =
      (title_required, [sample_task]) \<and>
      router_patch sample_env None 7 ''a1'' ?b [sample_task] = (title_required, [sample_task])"
    by blast
  from th b have 2: "titles_ok (snd (handle sample_env ?r [sample_task]))"
    by blast
  from a b 1 2 show ?thesis by blast
qed

section \<open>The date filters \<^verbatim>\<open>overdue\<close> and \<^verbatim>\<open>today\<close>\<close>

text \<open>
  C7. The \<^verbatim>\<open>overdue\<close> filter resolves to a range with no lower bound and the strict
  upper bound \<open>now'\<close>, the instant at which the handler reads the clock for it: a due
  date matches exactly when it is strictly before that instant, a task without a due
  date never matches, and a list request with this filter alone returns and counts the
  tasks due before it.
\<close>

theorem overdue_filter_strict_upper_bound:
  "resolve_dateFilter env now now' DATE_FILTERS_OVERDUE =
     Some \<lparr>gte = None, lte = None, lt = Some now'\<rparr> \<and>
   in_range \<lparr>gte = None, lte = None, lt = Some now'\<rparr> (Some d) = (d < now') \<and>
   in_range \<lparr>gte = None, lte = None, lt = Some now'\<rparr> None = False \<and>
   getTasks env None now now' (no_query\<lparr>q_dateFilter := Some (QStr DATE_FILTERS_OVERDUE)\<rparr>) db =
     Json 200 (TaskList
       (take 10 (order_by env
          (filter (due_before now') db)))
       \<lparr>p_total = int (length
          (filter (due_before now') db)),
        p_page = 1, p_limit = 10,
        p_totalPages = Math_ceil_div (int (length
          (filter (due_before now') db))) 10\<rparr>)"
proof -
  note r = resolve_overdue [of env now now']
  have m: "matches (build_where env now now' JUndefined JUndefined (JStr ''overdue'')) =
           (due_before now')"
    by (rule ext) (simp add: matches_def build_where_def r in_range_overdue due_before_def)
  have g: "getTasks env None now now' (no_query\<lparr>q_dateFilter := Some (QStr ''overdue'')\<rparr>) db =
     Json 200 (TaskList
       (take 10 (order_by env
          (filter (due_before now') db)))
       \<lparr>p_total = int (length
          (filter (due_before now') db)),
        p_page = 1, p_limit = 10,
        p_totalPages = Math_ceil_div (int (length
          (filter (due_before now') db))) 10\<rparr>)"
    by (simp add: getTasks_no_query includes_DATE_FILTERS Let_def m)
  show ?thesis
    using r g by (simp add: DATE_FILTERS_OVERDUE_def in_range_overdue)
qed

text \<open>
  C8. The \<^verbatim>\<open>today\<close> filter resolves to the closed range from \<open>setHours now 0 0 0 0\<close> to
  \<open>setHours now 23 59 59 999\<close>. In local time these are 00:00:00.000 and 23:59:59.999
  of the day that holds \<open>now\<close>. A task due at the first instant of the range matches, a
  task due one second before it (yesterday at 23:59:59) does not, and a list request
  with this filter alone returns and counts the tasks due within the range.
\<close>

theorem today_filter_local_day:
  "resolve_dateFilter env now now' DATE_FILTERS_TODAY =
     Some \<lparr>gte = Some (setHours env now 0 0 0 0), lte = Some (setHours env now 23 59 59 999),
           lt = None\<rparr> \<and>
   LocalTime env (setHours env now 0 0 0 0) = Day (LocalTime env now) * msPerDay \<and>
   LocalTime env (setHours env now 23 59 59 999) =
     Day (LocalTime env now) * msPerDay + (msPerDay - 1) \<and>
   setHours env now 0 0 0 0 \<le> now \<and> now \<le> setHours env now 23 59 59 999 \<and>
   due_within (setHours env now 0 0 0 0) (setHours env now 23 59 59 999)
     (t\<lparr>t_dueDate := Some (setHours env now 0 0 0 0)\<rparr>) \<and>
   \<not> due_within (setHours env now 0 0 0 0) (setHours env now 23 59 59 999)
     (t\<lparr>t_dueDate := Some (setHours env now 0 0 0 0 - 1000)\<rparr>) \<and>
   getTasks env None now now' (no_query\<lparr>q_dateFilter := Some (QStr DATE_FILTERS_TODAY)\<rparr>) db =
     Json 200 (TaskList
       (take 10 (order_by env
          (filter (due_within (setHours env now 0 0 0 0) (setHours env now 23 59 59 999)) db)))
       \<lparr>p_total = int (length
          (filter (due_within (setHours env now 0 0 0 0) (setHours env now 23 59 59 999)) db)),
        p_page = 1, p_limit = 10,
        p_totalPages = Math_ceil_div (int (length
          (filter (due_within (setHours env now 0 0 0 0) (setHours env now 23 59 59 999)) db)))
          10\<rparr>)"
proof -
  let ?s = "setHours env now 0 0 0 0" and ?e = "setHours env now 23 59 59 999"
  have m: "matches (build_where env now now' JUndefined JUndefined (JStr ''today'')) =
           due_within ?s ?e"
    by (rule ext) (simp add: matches_def build_where_def resolve_today in_range_closed
        due_within_def)
  have g: "getTasks env None now now' (no_query\<lparr>q_dateFilter := Some (QStr ''today'')\<rparr>) db =
     Json 200 (TaskList (take 10 (order_by env (filter (due_within ?s ?e) db)))
       \<lparr>p_total = int (length (filter (due_within ?s ?e) db)), p_page = 1, p_limit = 10,
        p_totalPages = Math_ceil_div (int (length (filter (due_within ?s ?e) db))) 10\<rparr>)"
    by (simp add: getTasks_no_query includes_DATE_FILTERS Let_def m)
  have l1: "LocalTime env ?s = Day (LocalTime env now) * msPerDay"
    by (simp add: LocalTime_setHours MakeTime_def)
  have l2: "LocalTime env ?e = Day (LocalTime env now) * msPerDay + (msPerDay - 1)"
    by (simp add: LocalTime_setHours MakeTime_def msPerDay_def)
  have se: "?s \<le> ?e"
    by (simp add: setHours_end msPerDay_def)
  have d1: "due_within ?s ?e (t\<lparr>t_dueDate := Some ?s\<rparr>)"
    using se by (simp add: due_within_def)
  have d2: "\<not> due_within ?s ?e (t\<lparr>t_dueDate := Some (?s - 1000)\<rparr>)"
    by (simp add: due_within_def)
  show ?thesis
    using g l1 l2 d1 d2 setHours_start_le [of env now] setHours_end_ge [of now env]
    by (simp add: DATE_FILTERS_TODAY_def resolve_today)
qed

section \<open>Unknown identifiers and unknown date filters\<close>

text \<open>
  C9. A delete request, and an update request whose payload passes the validation,
  with an identifier that matches no stored task is answered, when the store does not
  fail otherwise, with status 404 and \<^verbatim>\<open>Task not found\<close>. For an update the store
  does not fail otherwise when no fault is given and the payload carries no priority
  (a priority that passes the validation is refused by the client before the table is
  read, and what the handler answers then is not stated here). A list request
  whose pagination, status and priority parameters are valid and whose date filter is
  a non-empty string outside \<^verbatim>\<open>today\<close>, \<^verbatim>\<open>week\<close>, \<^verbatim>\<open>month\<close>, \<^verbatim>\<open>overdue\<close> is
  answered with status 400 and the invalid-date-filter error. In each case the store is
  left as it was.
\<close>

theorem unknown_id_not_found_unknown_filter_rejected:
  "(i \<noteq> [] \<and> i \<notin> set (map t_id db) \<longrightarrow>
      router_delete env None i db = (task_not_found, db)) \<and>
   (i \<noteq> [] \<and> i \<notin> set (map t_id db) \<and> validateTask env body = Inr v \<and>
    v_priority v = None \<longrightarrow>
      router_patch env None now i body db = (task_not_found, db)) \<and>
   (q_dateFilter q = Some (QStr f) \<and> f \<noteq> [] \<and>
    f \<notin> {''today'', ''week'', ''month'', ''overdue''} \<and>
    valid_pagination (parse_param 1 (q_page q)) (parse_param 10 (q_limit q)) = Some pl \<and>
    (truthy (qjs (q_status q)) \<longrightarrow> array_includes (Object_values STATUS) (qjs (q_status q))) \<and>
    (truthy (qjs (q_priority q)) \<longrightarrow>
       array_includes (Object_values PRIORITY) (qjs (q_priority q))) \<longrightarrow>
      router_get env fault now now' q db = (invalid_date_filter, db)) \<and>
   status_code task_not_found = 404 \<and> status_code invalid_date_filter = 400"
  by (simp add: router_delete_def router_patch_def router_get_def deleteTask_unknown
      updateTask_unknown getTasks_unknown_dateFilter task_not_found_def invalid_date_filter_def)

theorem unknown_id_not_found_unknown_filter_rejected_witness:
  "''zz'' \<noteq> [] \<and> ''zz'' \<notin> set (map t_id [sample_task]) \<and>
   router_delete sample_env None ''zz'' [sample_task] = (task_not_found, [sample_task]) \<and>
   validateTask sample_env (JObj [(''title'', JStr ''x''), (''status'', JStr ''DONE'')]) =
     Inr \<lparr>v_title = ''x'', v_status = Some ''DONE'', v_priority = None, v_dueDate = None\<rparr> \<and>
   router_patch sample_env None 7 ''zz''
     (JObj [(''title'', JStr ''x''), (''status'', JStr ''DONE'')]) [sample_task] =
     (task_not_found, [sample_task]) \<and>
   router_get sample_env None 7 6 (no_query\<lparr>q_dateFilter := Some (QStr ''year'')\<rparr>)
     [sample_task] = (invalid_date_filter, [sample_task])"
proof -
  let ?b = "JObj [(''title'', JStr ''x''), (''status'', JStr ''DONE'')]"
  let ?v = "\<lparr>v_title = ''x'', v_status = Some ''DONE'', v_priority = None, v_dueDate = None\<rparr>"
  let ?q = "no_query\<lparr>q_dateFilter := Some (QStr ''year'')\<rparr>"
  have a: "''zz'' \<noteq> [] \<and> ''zz'' \<notin> set (map t_id [sample_task])"
    by (simp add: sample_task_def)
  have v: "validateTask sample_env ?b = Inr ?v"
    by code_simp
  have f: "q_dateFilter ?q = Some (QStr ''year'') \<and> ''year'' \<noteq> [] \<and>
           ''year'' \<notin> {''today'', ''week'', ''month'', ''overdue''}"
    by simp
  have p: "valid_pagination (parse_param 1 (q_page ?q)) (parse_param 10 (q_limit ?q)) =
           Some (1, 10)"
    by (simp add: no_query_def parse_param_def valid_pagination_def)
  have s: "(truthy (qjs (q_status ?q)) \<longrightarrow>
              array_includes (Object_values STATUS) (qjs (q_status ?q))) \<and>
           (truthy (qjs (q_priority ?q)) \<longrightarrow>
              array_includes (Object_values PRIORITY) (qjs (q_priority ?q)))"
    by (simp add: no_query_def)
  note th = unknown_id_not_found_unknown_filter_rejected [where i = "''zz''"
      and db = "[sample_task]" and env = sample_env and body = ?b and v = ?v and now = 7
      and q = ?q and f = "''year''" and pl = "(1, 10)" and fault = None and now' = 6]
  from th a have 1: "router_delete sample_env None ''zz'' [sample_task] =
      (task_not_found, [sample_task])"
    by blast
  have np: "v_priority ?v = None"
    by simp
  from th a v np have 2: "router_patch sample_env None 7 ''zz'' ?b [sample_task] =
      (task_not_found, [sample_task])"
    by blast
  from th f p s have 3: "router_get sample_env None 7 6 ?q [sample_task] =
      (invalid_date_filter, [sample_task])"
    by blast
  from a v 1 2 3 show ?thesis by blast
qed


text \<open>
  The same does not hold of every update request with an unknown identifier, nor of
  every date filter outside the enumeration: the validation of the payload comes before
  the store is asked, so an update with an invalid status and an unknown identifier is
  answered with 400, not 404; and an empty date filter, which is outside the
  enumeration, is taken as no filter and the list request succeeds.
\<close>

theorem unknown_id_invalid_payload_counterexample:
  "''zz'' \<notin> set (map t_id [sample_task]) \<and>
   router_patch sample_env None 0 ''zz''
     (JObj [(''title'', JStr ''x''), (''status'', JStr ''bogus'')]) [sample_task] \<noteq>
     (task_not_found, [sample_task]) \<and>
   status_code (fst (router_patch sample_env None 0 ''zz''
     (JObj [(''title'', JStr ''x''), (''status'', JStr ''bogus'')]) [sample_task])) = 400 \<and>
   '''' \<notin> {''today'', ''week'', ''month'', ''overdue''} \<and>
   router_get sample_env None 0 0 (no_query\<lparr>q_dateFilter := Some (QStr '''')\<rparr>) [sample_task] =
     (Json 200 (TaskList [sample_task]
        \<lparr>p_total = 1, p_page = 1, p_limit = 10, p_totalPages = 1\<rparr>), [sample_task])"
  by code_simp

section \<open>The month filter\<close>

text \<open>
  C10. A list request with \<^verbatim>\<open>dateFilter=month\<close> passes the check against the
  enumeration, the switch has no case for it, and so the handler answers exactly as it
  answers the same request without a date filter: no condition on the due date is
  applied.
\<close>

theorem month_filter_is_no_filter:
  "array_includes (Object_values DATE_FILTERS) (JStr DATE_FILTERS_MONTH) \<and>
   resolve_dateFilter env now now' DATE_FILTERS_MONTH = None \<and>
   getTasks env fault now now' (q\<lparr>q_dateFilter := Some (QStr DATE_FILTERS_MONTH)\<rparr>) db =
   getTasks env fault now now' (q\<lparr>q_dateFilter := None\<rparr>) db"
proof -
  have w: "build_where env now now' s p (JStr ''month'') = build_where env now now' s p JUndefined"
    for s p
    by (simp add: build_where_def resolve_month)
  have g: "getTasks env fault now now' (q\<lparr>q_dateFilter := Some (QStr ''month'')\<rparr>) db =
           getTasks env fault now now' (q\<lparr>q_dateFilter := None\<rparr>) db"
    by (simp add: getTasks_def Let_def includes_DATE_FILTERS w
        cong: option.case_cong prod.case_cong sum.case_cong if_cong)
  show ?thesis
    using g by (simp add: includes_DATE_FILTERS resolve_month DATE_FILTERS_MONTH_def)
qed

end
